theory Spec2Isabelle
  imports Complex_Main "HOL-Library.Word" "HOL-Library.Stream"
begin

unbundle bit_operations_syntax

section \<open>Single-precision arithmetic\<close>

text \<open>
  The C++ type \<^verbatim>\<open>float\<close> is IEEE-754 binary32. A finite binary32 value is modelled
  as the real number it denotes, and every arithmetic operation of the source returns
  the exact result rounded to the nearest binary32 value, ties to even (\<open>fl\<close>): 24
  significand bits, subnormals below \<open>2 powi (-126)\<close>. This is the evaluation of a
  build that keeps \<^verbatim>\<open>float\<close> expressions in single precision and does not fuse a
  product with a sum. \<^verbatim>\<open>sqrt\<close> on a \<^verbatim>\<open>float\<close> is the correctly rounded square root, and a
  decimal literal is rounded once. Overflow to infinity is outside this model; a
  division by zero, whose result is infinite or not a number, is an error value where
  the source performs one.
\<close>

definition rne :: "real \<Rightarrow> int" where
  "rne v = (let f = \<lfloor>v\<rfloor>; r = v - of_int f in
     if r < 1/2 then f else if 1/2 < r then f + 1 else if even f then f else f + 1)"

definition quantum :: "real \<Rightarrow> int" where
  "quantum v = max (\<lfloor>log 2 \<bar>v\<bar>\<rfloor> - 23) (- 149)"

definition fl :: "real \<Rightarrow> real" where
  "fl v = (if v = 0 then 0 else of_int (rne (v / 2 powi quantum v)) * 2 powi quantum v)"

definition fadd :: "real \<Rightarrow> real \<Rightarrow> real" where
  "fadd a b = fl (a + b)"

definition fsub :: "real \<Rightarrow> real \<Rightarrow> real" where
  "fsub a b = fl (a - b)"

definition fmul :: "real \<Rightarrow> real \<Rightarrow> real" where
  "fmul a b = fl (a * b)"

definition fdiv :: "real \<Rightarrow> real \<Rightarrow> real" where
  "fdiv a b = fl (a / b)"

definition fsqrt :: "real \<Rightarrow> real" where
  "fsqrt a = fl (sqrt a)"

datatype error = IndexOutOfRange | DivisionByZero | NotRepresentable | BadLexicalCast

text \<open>
  The implicit conversion of a \<^verbatim>\<open>float\<close> to \<^verbatim>\<open>uint8_t\<close> truncates towards zero; C++
  leaves it undefined when the truncated value is not in \<open>0..255\<close>.
\<close>

definition to_uint8 :: "real \<Rightarrow> error + 8 word" where
  "to_uint8 v = (let t = (if 0 \<le> v then \<lfloor>v\<rfloor> else \<lceil>v\<rceil>) in
     if 0 \<le> t \<and> t \<le> 255 then Inr (word_of_int t) else Inl NotRepresentable)"

section \<open>Points and clouds\<close>

text \<open>
  \<open>PointXY\<close>, \<open>PointRGB\<close> (PCL's \<^verbatim>\<open>PointXYZRGB\<close>) and \<open>PointXYZRGBW\<close> share their
  leading fields, so each record extends the one before. The \<^verbatim>\<open>rgb\<close> field is a
  \<^verbatim>\<open>float\<close> that the source only copies and reinterprets as a 32-bit integer: it is
  modelled by its bit pattern. A cloud is the list of its points.
\<close>

record PointXY =
  x :: real
  y :: real

record PointRGB = PointXY +
  z :: real
  rgb :: "32 word"

record PointXYZRGBW = PointRGB +
  w :: real

definition xy_of :: "'a PointXY_scheme \<Rightarrow> PointXY" where
  "xy_of p = \<lparr>x = x p, y = y p\<rparr>"

text \<open>
  Modelled from the spec: the declaration of \<^verbatim>\<open>PointXYZRGBW\<close> (reconstruction/base.h)
  is not among the sources, and \<^verbatim>\<open>build3D\<close> never assigns the \<^verbatim>\<open>w\<close> field of the local
  point \<^verbatim>\<open>p\<close> it declares at line 259. The spec's data model gives the blended-flag of
  a point not yet touched as 0, and section 4.4 step 1a appends such a point "as a new
  point with blended-flag = 0".
\<close>

definition default_w :: real where
  "default_w = 0"

section \<open>The planar index\<close>

text \<open>
  \<^verbatim>\<open>pcl::KdTreeFLANN<PointXY>\<close> is a library the pipeline calls. An index is represented
  by the cloud given to \<^verbatim>\<open>setInputCloud\<close>; the two queries are parameters of the model.
  A query returns the list of (index, squared distance) pairs; its length is the
  number of neighbours the call returns.
\<close>

record KdTreeFLANN =
  radiusSearch :: "PointXY list \<Rightarrow> PointXY \<Rightarrow> real \<Rightarrow> nat \<Rightarrow> (nat \<times> real) list"
  nearestKSearch :: "PointXY list \<Rightarrow> PointXY \<Rightarrow> nat \<Rightarrow> (nat \<times> real) list"

definition sqr_dist :: "PointXY \<Rightarrow> PointXY \<Rightarrow> real" where
  "sqr_dist a b = (x a - x b) * (x a - x b) + (y a - y b) * (y a - y b)"

text \<open>
  What the model asks of a radius query: it reports only points of the indexed cloud,
  each with its squared planar distance to the query point, none farther than the radius.
\<close>

definition radius_sound :: "KdTreeFLANN \<Rightarrow> bool" where
  "radius_sound kd = (\<forall>pts sp r K i d. (i, d) \<in> set (radiusSearch kd pts sp r K) \<longrightarrow>
     i < length pts \<and> d = sqr_dist sp (pts ! i) \<and> d \<le> r * r)"

text \<open>
  Modelled from the spec: the spatial index collaborator of section 6,
  \<^verbatim>\<open>radiusQuery(index, point, radius, maxResults)\<close> and \<^verbatim>\<open>nearestK(index, point, k)\<close>, each
  returning a list of (index, squaredDistance). The radius query lists the points within
  the radius in index order, at most \<open>K\<close> of them (all of them when \<open>K = 0\<close>); the
  nearest-neighbour query lists the \<open>K\<close> closest points, closest first.
\<close>

definition indexed_dists :: "PointXY list \<Rightarrow> PointXY \<Rightarrow> (nat \<times> real) list" where
  "indexed_dists pts sp = zip [0..<length pts] (map (sqr_dist sp) pts)"

definition radius_query :: "PointXY list \<Rightarrow> PointXY \<Rightarrow> real \<Rightarrow> nat \<Rightarrow> (nat \<times> real) list" where
  "radius_query pts sp r K =
     (let found = filter (\<lambda>(i, d). d \<le> r * r) (indexed_dists pts sp)
      in if K = 0 then found else take K found)"

definition nearest_query :: "PointXY list \<Rightarrow> PointXY \<Rightarrow> nat \<Rightarrow> (nat \<times> real) list" where
  "nearest_query pts sp K = take K (sort_key snd (indexed_dists pts sp))"

definition flann :: KdTreeFLANN where
  "flann = \<lparr>radiusSearch = radius_query, nearestKSearch = nearest_query\<rparr>"

section \<open>Colour blending (base.cpp, lines 296-313 and 392-408)\<close>

text \<open>
  A colour is packed as \<open>R << 16 | G << 8 | B\<close> in a signed 32-bit integer; a channel is
  read by an arithmetic right shift and a mask.
\<close>

definition red :: "32 word \<Rightarrow> 8 word" where
  "red c = ucast (signed_drop_bit 16 c AND 0xff)"

definition green :: "32 word \<Rightarrow> 8 word" where
  "green c = ucast (signed_drop_bit 8 c AND 0xff)"

definition blue :: "32 word \<Rightarrow> 8 word" where
  "blue c = ucast (c AND 0xff)"

definition pack_rgb :: "8 word \<Rightarrow> 8 word \<Rightarrow> 8 word \<Rightarrow> 32 word" where
  "pack_rgb r g b = push_bit 16 (ucast r) OR push_bit 8 (ucast g) OR ucast b"

text \<open>\<^verbatim>\<open>cloud_r = (1-alpha)*acc_r + alpha*cloud_r\<close>, computed in \<^verbatim>\<open>float\<close>.\<close>

definition blend_channel :: "real \<Rightarrow> 8 word \<Rightarrow> 8 word \<Rightarrow> error + 8 word" where
  "blend_channel alpha acc_c cloud_c =
     to_uint8 (fadd (fmul (fsub 1 alpha) (real (unat acc_c))) (fmul alpha (real (unat cloud_c))))"

text \<open>
  The blend of an accumulator colour with a cloud colour, given the maximum contour
  distance of the cloud and the squared distance of the point to the contour. With
  \<^verbatim>\<open>max_contour_dist\<close> zero the quotient is infinite or not a number in the source, and
  the conversion of the channels to \<^verbatim>\<open>uint8_t\<close> is then undefined.
\<close>

definition blend :: "real \<Rightarrow> real \<Rightarrow> 32 word \<Rightarrow> 32 word \<Rightarrow> error + 32 word" where
  "blend max_contour_dist contour_squared_dist acc_rgb cloud_rgb =
     (if max_contour_dist = 0 then Inl DivisionByZero
      else
        let alpha = fdiv (fsub max_contour_dist (fsqrt contour_squared_dist)) max_contour_dist
        in case blend_channel alpha (red acc_rgb) (red cloud_rgb) of
             Inl e \<Rightarrow> Inl e
           | Inr cloud_r \<Rightarrow>
               (case blend_channel alpha (green acc_rgb) (green cloud_rgb) of
                  Inl e \<Rightarrow> Inl e
                | Inr cloud_g \<Rightarrow>
                    (case blend_channel alpha (blue acc_rgb) (blue cloud_rgb) of
                       Inl e \<Rightarrow> Inl e
                     | Inr cloud_b \<Rightarrow> Inr (pack_rgb cloud_r cloud_g cloud_b))))"

section \<open>Merging one cloud into the accumulator (base.cpp, lines 218-414)\<close>

text \<open>\<^verbatim>\<open>acc->points[i]\<close>: an index past the end is a failure of the model.\<close>

definition at_index :: "'a list \<Rightarrow> nat \<Rightarrow> error + 'a" where
  "at_index xs i = (if i < length xs then Inr (xs ! i) else Inl IndexOutOfRange)"

text \<open>Lines 219-220: every blended-flag of the accumulator is set to zero.\<close>

definition reset_w :: "PointXYZRGBW list \<Rightarrow> PointXYZRGBW list" where
  "reset_w acc = map (\<lambda>p. p\<lparr>w := 0\<rparr>) acc"

text \<open>
  Lines 222-248: the largest distance to the contour among the cloud points that have
  an accumulator neighbour within \<open>2 * max_dist\<close>.
\<close>

fun max_contour_dist_loop ::
  "KdTreeFLANN \<Rightarrow> PointXY list \<Rightarrow> PointXY list \<Rightarrow> real \<Rightarrow> PointRGB list \<Rightarrow> real \<Rightarrow> real" where
  "max_contour_dist_loop kd acc_xy acc_contour_xy max_dist [] max_contour_dist = max_contour_dist"
| "max_contour_dist_loop kd acc_xy acc_contour_xy max_dist (cp # cloud) max_contour_dist =
     (let sp = xy_of cp;
          num_neighbors = length (radiusSearch kd acc_xy sp (fmul 2 max_dist) 1)
      in if 0 < num_neighbors
         then (case nearestKSearch kd acc_contour_xy sp 1 of
                 [] \<Rightarrow> max_contour_dist_loop kd acc_xy acc_contour_xy max_dist cloud max_contour_dist
               | (contour_idx, contour_squared_dist) # _ \<Rightarrow>
                   (let dist = fsqrt contour_squared_dist
                    in max_contour_dist_loop kd acc_xy acc_contour_xy max_dist cloud
                         (if max_contour_dist < dist then dist else max_contour_dist)))
         else max_contour_dist_loop kd acc_xy acc_contour_xy max_dist cloud max_contour_dist)"

text \<open>Lines 274-284: the running pairwise average of \<open>p.z\<close> with each neighbour's \<open>z\<close>.\<close>

fun filter_z :: "PointXYZRGBW list \<Rightarrow> nat list \<Rightarrow> real \<Rightarrow> error + real" where
  "filter_z acc [] pz = Inr pz"
| "filter_z acc (i # neighbor_idx) pz =
     (case at_index acc i of
        Inl e \<Rightarrow> Inl e
      | Inr p_acc \<Rightarrow> filter_z acc neighbor_idx (fdiv (fadd pz (z p_acc)) 2))"

text \<open>\<^verbatim>\<open>std::min_element\<close>: the position of the first smallest element.\<close>

fun min_element :: "real list \<Rightarrow> nat" where
  "min_element [] = 0"
| "min_element [d] = 0"
| "min_element (d # ds) = (let j = min_element ds in if ds ! j < d then Suc j else 0)"

text \<open>Lines 322-330: border unless some neighbour is closer than \<open>max_dist\<close>.\<close>

fun is_border :: "real \<Rightarrow> real list \<Rightarrow> bool" where
  "is_border max_dist [] = True"
| "is_border max_dist (d # neighbor_squared_dist) =
     (if d < fmul max_dist max_dist then False else is_border max_dist neighbor_squared_dist)"

text \<open>
  Which arm of the source handled a cloud point: the \<^verbatim>\<open>else\<close> of line 357 (no neighbour),
  the border arm of line 333 or the update arm of line 348. The tag is not data of the
  program; it records the path taken.
\<close>

datatype arm = NoNeighbor | Border | Inside

text \<open>Lines 259-263: the point \<open>p\<close> built from the cloud point.\<close>

definition new_point :: "PointRGB \<Rightarrow> PointXYZRGBW" where
  "new_point cp = \<lparr>x = x cp, y = y cp, z = z cp, rgb = rgb cp, w = default_w\<rparr>"

text \<open>
  Lines 286-319: the colour of \<open>p\<close> after blending with the closest accumulator point; it
  stays the cloud's colour when the contour index returns nothing.
\<close>

definition blend_color ::
  "KdTreeFLANN \<Rightarrow> PointXY list \<Rightarrow> real \<Rightarrow> PointXY \<Rightarrow> 32 word \<Rightarrow> 32 word \<Rightarrow> error + 32 word" where
  "blend_color kd acc_contour_xy max_contour_dist sp acc_rgb cloud_rgb =
     (case nearestKSearch kd acc_contour_xy sp 1 of
        [] \<Rightarrow> Inr cloud_rgb
      | (contour_idx, contour_squared_dist) # _ \<Rightarrow>
          blend max_contour_dist contour_squared_dist acc_rgb cloud_rgb)"

text \<open>
  Lines 272-356, the arm for a point with neighbours \<open>res\<close> (never empty here). The
  result is the arm taken and the new accumulator.
\<close>

definition merge_overlap ::
  "KdTreeFLANN \<Rightarrow> PointXY list \<Rightarrow> real \<Rightarrow> real \<Rightarrow> PointRGB \<Rightarrow> (nat \<times> real) list
     \<Rightarrow> PointXYZRGBW list \<Rightarrow> error + (arm \<times> PointXYZRGBW list)" where
  "merge_overlap kd acc_contour_xy max_dist max_contour_dist cp res acc =
     (let neighbor_idx = map fst res;
          neighbor_squared_dist = map snd res
      in case filter_z acc neighbor_idx (z cp) of
           Inl e \<Rightarrow> Inl e
         | Inr pz \<Rightarrow>
             (let min_index = min_element neighbor_squared_dist
              in case at_index acc (neighbor_idx ! min_index) of
                   Inl e \<Rightarrow> Inl e
                 | Inr p_acc \<Rightarrow>
                     (case blend_color kd acc_contour_xy max_contour_dist (xy_of cp)
                             (rgb p_acc) (rgb cp) of
                        Inl e \<Rightarrow> Inl e
                      | Inr prgb \<Rightarrow>
                          if is_border max_dist neighbor_squared_dist
                          then Inr (Border,
                                 acc @ [\<lparr>x = x cp, y = y cp, z = pz, rgb = prgb, w = 1\<rparr>])
                          else Inr (Inside,
                                 acc[neighbor_idx ! min_index :=
                                       p_acc\<lparr>z := pz, rgb := prgb, w := 1\<rparr>]))))"

text \<open>
  Lines 370-411, the body of the fix-up loop for one accumulator point: the point as it
  is written back. A point already blended, or one for which a search returns nothing,
  is returned as it is (the source writes nothing then).
\<close>

definition fix_color ::
  "KdTreeFLANN \<Rightarrow> PointXY list \<Rightarrow> PointRGB list \<Rightarrow> real \<Rightarrow> PointXYZRGBW
     \<Rightarrow> error + PointXYZRGBW" where
  "fix_color kd acc_contour_xy cloud max_contour_dist p_acc =
     (if w p_acc = 1 then Inr p_acc
      else
        let sp = xy_of p_acc
        in case nearestKSearch kd (map xy_of cloud) sp 1 of
             [] \<Rightarrow> Inr p_acc
           | (cloud_idx, cloud_squared_dist) # _ \<Rightarrow>
               (case at_index cloud cloud_idx of
                  Inl e \<Rightarrow> Inl e
                | Inr p_cloud \<Rightarrow>
                    (case nearestKSearch kd acc_contour_xy sp 1 of
                       [] \<Rightarrow> Inr p_acc
                     | (contour_idx, contour_squared_dist) # _ \<Rightarrow>
                         (case blend max_contour_dist contour_squared_dist
                                 (rgb p_acc) (rgb p_cloud) of
                            Inl e \<Rightarrow> Inl e
                          | Inr new_rgb \<Rightarrow> Inr (p_acc\<lparr>rgb := new_rgb, w := 1\<rparr>)))))"

text \<open>Lines 367-413: the fix-up loop over \<^verbatim>\<open>acc_overlap_idx\<close>.\<close>

fun fix_colors ::
  "KdTreeFLANN \<Rightarrow> PointXY list \<Rightarrow> PointRGB list \<Rightarrow> real \<Rightarrow> nat list
     \<Rightarrow> PointXYZRGBW list \<Rightarrow> error + PointXYZRGBW list" where
  "fix_colors kd acc_contour_xy cloud max_contour_dist [] acc = Inr acc"
| "fix_colors kd acc_contour_xy cloud max_contour_dist (i # acc_overlap_idx) acc =
     (case at_index acc i of
        Inl e \<Rightarrow> Inl e
      | Inr p_acc \<Rightarrow>
          (case fix_color kd acc_contour_xy cloud max_contour_dist p_acc of
             Inl e \<Rightarrow> Inl e
           | Inr p_fixed \<Rightarrow>
               fix_colors kd acc_contour_xy cloud max_contour_dist acc_overlap_idx
                 (acc[i := p_fixed])))"

text \<open>
  Lines 252-413, the body of the merge loop for the cloud point \<open>cp\<close>: the insertion or
  update of lines 266-365, then the fix-up over the neighbours found.
\<close>

definition insert_or_update ::
  "KdTreeFLANN \<Rightarrow> PointXY list \<Rightarrow> real \<Rightarrow> real \<Rightarrow> PointRGB \<Rightarrow> (nat \<times> real) list
     \<Rightarrow> PointXYZRGBW list \<Rightarrow> error + (arm \<times> PointXYZRGBW list)" where
  "insert_or_update kd acc_contour_xy max_dist max_contour_dist cp res acc =
     (if 0 < length res
      then merge_overlap kd acc_contour_xy max_dist max_contour_dist cp res acc
      else Inr (NoNeighbor, acc @ [new_point cp]))"

definition merge_point ::
  "KdTreeFLANN \<Rightarrow> PointXY list \<Rightarrow> PointXY list \<Rightarrow> PointRGB list \<Rightarrow> real \<Rightarrow> real
     \<Rightarrow> PointRGB \<Rightarrow> PointXYZRGBW list \<Rightarrow> error + (arm \<times> PointXYZRGBW list)" where
  "merge_point kd acc_xy acc_contour_xy cloud max_dist max_contour_dist cp acc =
     (let res = radiusSearch kd acc_xy (xy_of cp) (fmul 2 max_dist) 10
      in case insert_or_update kd acc_contour_xy max_dist max_contour_dist cp res acc of
           Inl e \<Rightarrow> Inl e
         | Inr (a, acc1) \<Rightarrow>
             (case fix_colors kd acc_contour_xy cloud max_contour_dist (map fst res) acc1 of
                Inl e \<Rightarrow> Inl e
              | Inr acc2 \<Rightarrow> Inr (a, acc2)))"

text \<open>Lines 251-414: the merge loop; \<open>todo\<close> are the cloud points still to process.\<close>

fun merge_loop ::
  "KdTreeFLANN \<Rightarrow> PointXY list \<Rightarrow> PointXY list \<Rightarrow> PointRGB list \<Rightarrow> real \<Rightarrow> real
     \<Rightarrow> PointRGB list \<Rightarrow> PointXYZRGBW list \<Rightarrow> error + (arm list \<times> PointXYZRGBW list)" where
  "merge_loop kd acc_xy acc_contour_xy cloud max_dist max_contour_dist [] acc = Inr ([], acc)"
| "merge_loop kd acc_xy acc_contour_xy cloud max_dist max_contour_dist (cp # todo) acc =
     (case merge_point kd acc_xy acc_contour_xy cloud max_dist max_contour_dist cp acc of
        Inl e \<Rightarrow> Inl e
      | Inr (a, acc1) \<Rightarrow>
          (case merge_loop kd acc_xy acc_contour_xy cloud max_dist max_contour_dist todo acc1 of
             Inl e \<Rightarrow> Inl e
           | Inr (arms, acc2) \<Rightarrow> Inr (a # arms, acc2)))"

text \<open>
  Lines 204-414 for one cloud: the indices are built on the accumulator as it stands, the
  flags are reset, the maximum contour distance is measured and the cloud is merged.
\<close>

definition merge_cloud ::
  "KdTreeFLANN \<Rightarrow> PointXY list \<Rightarrow> real \<Rightarrow> PointRGB list \<Rightarrow> PointXYZRGBW list
     \<Rightarrow> error + (arm list \<times> PointXYZRGBW list)" where
  "merge_cloud kd acc_contour_xy max_dist cloud acc =
     (let acc_xy = map xy_of acc;
          max_contour_dist = max_contour_dist_loop kd acc_xy acc_contour_xy max_dist cloud 0
      in merge_loop kd acc_xy acc_contour_xy cloud max_dist max_contour_dist cloud (reset_w acc))"

text \<open>Lines 100-104: the voxel size and the maximum distance from a point to its voxel.\<close>

definition voxel_size :: real where
  "voxel_size = fl (5 / 1000)"

definition max_dist :: real where
  "max_dist = fsqrt (fdiv (fmul voxel_size voxel_size) 2)"

text \<open>
  The accumulator point the source calls \<^verbatim>\<open>neighbor_idx[min_index]\<close>: the closest of the
  neighbours found, the first of them when several are equally close.
\<close>

definition primary_match :: "(nat \<times> real) list \<Rightarrow> nat" where
  "primary_match res = map fst res ! min_element (map snd res)"

section \<open>Reading the poses (base.cpp, lines 486-530)\<close>

record Pose =
  tx :: real
  ty :: real
  tz :: real
  qx :: real
  qy :: real
  qz :: real
  qw :: real

text \<open>
  What \<^verbatim>\<open>readPoses\<close> and \<^verbatim>\<open>build3D\<close> see of the file system: the successive answers
  to \<^verbatim>\<open>fs::exists\<close> on the block file, the lines of the poses file (\<open>None\<close> when it
  cannot be opened), the directory of the clouds, \<^verbatim>\<open>boost::lexical_cast<double>\<close>
  (\<open>None\<close> where it throws), and the value an uninitialised \<^verbatim>\<open>double\<close> happens to hold.
\<close>

record Environment =
  block_exists :: "bool stream"
  graph_file :: "string list option"
  clouds_dir :: string
  lexical_cast :: "string \<Rightarrow> real option"
  indeterminate :: real

text \<open>Line 492: the loop spins while the block file exists; it may never end.\<close>

partial_function (option) wait_unblocked :: "bool stream \<Rightarrow> unit option" where
  "wait_unblocked answers = (if shd answers then wait_unblocked (stl answers) else Some ())"

text \<open>
  Line 503, \<^verbatim>\<open>getline(ss, value, ',')\<close> until it fails: the fields of a line. A field
  ends at a comma or at the end of the line; nothing is read after a final comma.
\<close>

fun split_fields :: "string \<Rightarrow> string \<Rightarrow> string list" where
  "split_fields [] value = (if value = [] then [] else [value])"
| "split_fields (c # rest) value =
     (if c = CHR '','' then value # split_fields rest [] else split_fields rest (value @ [c]))"

text \<open>Lines 503-522: field 1 names the cloud, fields 5 to 11 are the pose.\<close>

fun read_fields ::
  "(string \<Rightarrow> real option) \<Rightarrow> nat \<Rightarrow> string list \<Rightarrow> string \<times> Pose \<Rightarrow> error + string \<times> Pose" where
  "read_fields cast i [] (cloud_name, pose) = Inr (cloud_name, pose)"
| "read_fields cast i (value # rest) (cloud_name, pose) =
     (if i = 1 then read_fields cast (i + 1) rest (value @ ''.pcd'', pose)
      else if 5 \<le> i \<and> i \<le> 11 then
        (case cast value of
           None \<Rightarrow> Inl BadLexicalCast
         | Some v \<Rightarrow>
             read_fields cast (i + 1) rest
               (cloud_name,
                if i = 5 then pose\<lparr>tx := v\<rparr>
                else if i = 6 then pose\<lparr>ty := v\<rparr>
                else if i = 7 then pose\<lparr>tz := v\<rparr>
                else if i = 8 then pose\<lparr>qx := v\<rparr>
                else if i = 9 then pose\<lparr>qy := v\<rparr>
                else if i = 10 then pose\<lparr>qz := v\<rparr>
                else pose\<lparr>qw := v\<rparr>))
      else read_fields cast (i + 1) rest (cloud_name, pose))"

text \<open>Lines 497-528: one pair is pushed for every line of the file.\<close>

fun read_lines ::
  "Environment \<Rightarrow> string list \<Rightarrow> (string \<times> Pose) list \<Rightarrow> error + (string \<times> Pose) list" where
  "read_lines env [] cloud_poses = Inr cloud_poses"
| "read_lines env (line # rest) cloud_poses =
     (let u = indeterminate env
      in case read_fields (lexical_cast env) 0 (split_fields line [])
                ([], \<lparr>tx = u, ty = u, tz = u, qx = u, qy = u, qz = u, qw = u\<rparr>) of
           Inl e \<Rightarrow> Inl e
         | Inr cloud_pose \<Rightarrow> read_lines env rest (cloud_poses @ [cloud_pose]))"

text \<open>
  \<^verbatim>\<open>readPoses\<close>: \<open>None\<close> when the wait never ends, \<open>Inl\<close> when a cast throws, and
  otherwise the returned flag with the poses read. A stream that could not be opened
  yields no line. The only \<^verbatim>\<open>return\<close> of the source is \<^verbatim>\<open>return true\<close> (line 529).
\<close>

definition readPoses :: "Environment \<Rightarrow> (error + bool \<times> (string \<times> Pose) list) option" where
  "readPoses env =
     (case wait_unblocked (block_exists env) of
        None \<Rightarrow> None
      | Some _ \<Rightarrow>
          Some (case read_lines env (case graph_file env of None \<Rightarrow> [] | Some lines \<Rightarrow> lines) [] of
                  Inl e \<Rightarrow> Inl e
                | Inr cloud_poses \<Rightarrow> Inr (True, cloud_poses)))"

section \<open>The pipeline (base.cpp, lines 94-457)\<close>

text \<open>
  The PCL and tf operations the pipeline calls are parameters: loading a cloud (\<open>None\<close>
  when \<^verbatim>\<open>loadPCDFile\<close> returns -1), the filters with their settings, the concave hull
  of a planar cloud, the transform \<^verbatim>\<open>pose.inverse() * tf0\<close>, its inverse, the transformation
  of a cloud, and the planar index.
\<close>

record 'tf PCL =
  loadPCDFile :: "string \<Rightarrow> PointRGB list option"
  removeNaNFromPointCloud :: "PointRGB list \<Rightarrow> PointRGB list"
  voxelGrid :: "real \<Rightarrow> real \<Rightarrow> real \<Rightarrow> PointRGB list \<Rightarrow> PointRGB list"
  voxelGridW :: "real \<Rightarrow> real \<Rightarrow> real \<Rightarrow> PointXYZRGBW list \<Rightarrow> PointXYZRGBW list"
  radiusOutlierRemoval :: "real \<Rightarrow> nat \<Rightarrow> PointRGB list \<Rightarrow> PointRGB list"
  statisticalOutlierRemoval :: "nat \<Rightarrow> real \<Rightarrow> PointRGB list \<Rightarrow> PointRGB list"
  concaveHull :: "real \<Rightarrow> PointXY list \<Rightarrow> PointXY list"
  relativeTransform :: "Pose \<Rightarrow> Pose \<Rightarrow> 'tf"
  inverseTransform :: "'tf \<Rightarrow> 'tf"
  transformPointCloud :: "PointXYZRGBW list \<Rightarrow> 'tf \<Rightarrow> PointXYZRGBW list"
  kdtree :: KdTreeFLANN

text \<open>Lines 130-153: the filters applied to a cloud that was read.\<close>

definition clean :: "'tf PCL \<Rightarrow> PointRGB list \<Rightarrow> PointRGB list" where
  "clean pcl in_cloud =
     statisticalOutlierRemoval pcl 40 2
       (radiusOutlierRemoval pcl (4 / 100) 50
          (voxelGrid pcl voxel_size voxel_size (1 / 2) (removeNaNFromPointCloud pcl in_cloud)))"

text \<open>Lines 182-202: the contour of the coarsely downsampled accumulator, in the plane.\<close>

definition contour_of :: "'tf PCL \<Rightarrow> PointXYZRGBW list \<Rightarrow> PointXY list" where
  "contour_of pcl acc =
     (let leaf = fmul voxel_size 10;
          acc_for_contour = voxelGridW pcl leaf leaf leaf acc
      in concaveHull pcl (1 / 10) (map xy_of acc_for_contour))"

text \<open>
  Lines 111-418, the loop over the poses, on the accumulator and the count of points
  read. A cloud that cannot be read is skipped; the first cloud read while the
  accumulator is empty becomes the accumulator; any other is merged in its own frame,
  and the accumulator is transformed back.
\<close>

fun accumulate ::
  "'tf PCL \<Rightarrow> Environment \<Rightarrow> Pose \<Rightarrow> (string \<times> Pose) list \<Rightarrow> PointXYZRGBW list \<times> nat
     \<Rightarrow> error + PointXYZRGBW list \<times> nat" where
  "accumulate pcl env tf0 [] (acc, total_points) = Inr (acc, total_points)"
| "accumulate pcl env tf0 ((file_idx, pose) # rest) (acc, total_points) =
     (case loadPCDFile pcl (clouds_dir env @ file_idx) of
        None \<Rightarrow> accumulate pcl env tf0 rest (acc, total_points)
      | Some in_cloud \<Rightarrow>
          (let total_points1 = total_points + length in_cloud;
               cloud = clean pcl in_cloud
           in if length acc = 0
              then accumulate pcl env tf0 rest (map new_point cloud, total_points1)
              else
                (let tfn0 = relativeTransform pcl pose tf0;
                     acc1 = transformPointCloud pcl acc tfn0
                 in case merge_cloud (kdtree pcl) (contour_of pcl acc1) max_dist cloud acc1 of
                      Inl e \<Rightarrow> Inl e
                    | Inr (arms, acc2) \<Rightarrow>
                        accumulate pcl env tf0 rest
                          (transformPointCloud pcl acc2 (inverseTransform pcl tfn0),
                           total_points1))))"

text \<open>
  How \<^verbatim>\<open>build3D\<close> ends: by the \<^verbatim>\<open>return\<close> of line 98, or by reaching
  \<^verbatim>\<open>savePCDFile\<close> at line 452 with a cloud, after the count of points processed.
\<close>

datatype outcome = Returned | Saved "PointRGB list" nat

definition drop_w :: "PointXYZRGBW \<Rightarrow> PointRGB" where
  "drop_w p = \<lparr>x = x p, y = y p, z = z p, rgb = rgb p\<rparr>"

text \<open>Lines 420-455: the weight field is removed, the cloud filtered and saved.\<close>

definition finish :: "'tf PCL \<Rightarrow> PointXYZRGBW list \<Rightarrow> nat \<Rightarrow> outcome" where
  "finish pcl acc total_points =
     Saved (statisticalOutlierRemoval pcl 40 2
              (radiusOutlierRemoval pcl (4 / 100) 50
                 (voxelGrid pcl voxel_size voxel_size voxel_size (map drop_w acc))))
           total_points"

definition build3D :: "'tf PCL \<Rightarrow> Environment \<Rightarrow> (error + outcome) option" where
  "build3D pcl env =
     (case readPoses env of
        None \<Rightarrow> None
      | Some (Inl e) \<Rightarrow> Some (Inl e)
      | Some (Inr (ok, cloud_poses)) \<Rightarrow>
          if \<not> ok then Some (Inr Returned)
          else
            (case cloud_poses of
               [] \<Rightarrow> Some (Inr (finish pcl [] 0))
             | (name0, tf0) # _ \<Rightarrow>
                 (case accumulate pcl env tf0 cloud_poses ([], 0) of
                    Inl e \<Rightarrow> Some (Inl e)
                  | Inr (acc, total_points) \<Rightarrow> Some (Inr (finish pcl acc total_points)))))"

section \<open>Small scenes\<close>

text \<open>
  Concrete inputs on which the model is run below. An accumulator of two points 3/1024
  apart, a cloud point between them and closer than \<open>max_dist\<close> to the first, a cloud
  point 5/1024 from the first (farther than \<open>max_dist\<close>, within \<open>2 * max_dist\<close>), a cloud
  point far away, and two one-point contours. For a blend with a weight strictly
  between 0 and 1, a cloud of two points on either side of the first accumulator point;
  and, for the reset of the flags, the first accumulator point with its flag set.
\<close>

abbreviation (input) ex_A0 :: PointXYZRGBW where
  "ex_A0 \<equiv> \<lparr>x = 0, y = 0, z = 0, rgb = 0x102030, w = 0\<rparr>"

abbreviation (input) ex_A1 :: PointXYZRGBW where
  "ex_A1 \<equiv> \<lparr>x = 3 / 1024, y = 0, z = 4, rgb = 0x405060, w = 0\<rparr>"

abbreviation (input) ex_P :: PointRGB where
  "ex_P \<equiv> \<lparr>x = 1 / 1024, y = 0, z = 0, rgb = 0x708090\<rparr>"

abbreviation (input) ex_Q :: PointRGB where
  "ex_Q \<equiv> \<lparr>x = 5 / 1024, y = 0, z = 4, rgb = 0x708090\<rparr>"

abbreviation (input) ex_F :: PointRGB where
  "ex_F \<equiv> \<lparr>x = 1, y = 0, z = 4, rgb = 0x708090\<rparr>"

abbreviation (input) ex_C0 :: PointXY where
  "ex_C0 \<equiv> \<lparr>x = 0, y = 0\<rparr>"

abbreviation (input) ex_C1 :: PointXY where
  "ex_C1 \<equiv> \<lparr>x = 3 / 1024, y = 0\<rparr>"

abbreviation (input) ex_A0w :: PointXYZRGBW where
  "ex_A0w \<equiv> \<lparr>x = 0, y = 0, z = 0, rgb = 0x102030, w = 1\<rparr>"

abbreviation (input) ex_H1 :: PointRGB where
  "ex_H1 \<equiv> \<lparr>x = 1 / 1024, y = 0, z = 0, rgb = 0x304050\<rparr>"

abbreviation (input) ex_H2 :: PointRGB where
  "ex_H2 \<equiv> \<lparr>x = - 1 / 1024, y = 0, z = 0, rgb = 0x304050\<rparr>"

section \<open>Properties of the rounding\<close>

lemma rne_error: "\<bar>of_int (rne v) - v\<bar> \<le> 1/2"
  unfolding rne_def Let_def by (auto simp: abs_if) linarith+

lemma rne_of_int [simp]: "rne (of_int n) = n"
  by (simp add: rne_def)

lemma rne_mono: "u \<le> v \<Longrightarrow> rne u \<le> rne v"
proof -
  assume uv: "u \<le> v"
  have fm: "\<lfloor>u\<rfloor> \<le> \<lfloor>v\<rfloor>" using uv by (rule floor_mono)
  show ?thesis
  proof (cases "\<lfloor>u\<rfloor> = \<lfloor>v\<rfloor>")
    case True
    then show ?thesis using uv unfolding rne_def Let_def by auto
  next
    case False
    then have "\<lfloor>u\<rfloor> + 1 \<le> \<lfloor>v\<rfloor>" using fm by linarith
    moreover have "rne u \<le> \<lfloor>u\<rfloor> + 1" unfolding rne_def Let_def by auto
    moreover have "\<lfloor>v\<rfloor> \<le> rne v" unfolding rne_def Let_def by auto
    ultimately show ?thesis by linarith
  qed
qed

lemma powr2_int: "2 powr (of_int e) = (2::real) powi e"
  by (rule powr_real_of_int') simp_all

lemma binade:
  assumes "v \<noteq> 0"
  shows "2 powi \<lfloor>log 2 \<bar>v\<bar>\<rfloor> \<le> \<bar>v\<bar>" "\<bar>v\<bar> < 2 powi (\<lfloor>log 2 \<bar>v\<bar>\<rfloor> + 1)"
proof -
  have "0 < \<bar>v\<bar>" using assms by simp
  from floor_log_eq_powr_iff[OF this, of 2 "\<lfloor>log 2 \<bar>v\<bar>\<rfloor>"]
  have *: "2 powr (of_int \<lfloor>log 2 \<bar>v\<bar>\<rfloor>) \<le> \<bar>v\<bar> \<and> \<bar>v\<bar> < 2 powr (of_int \<lfloor>log 2 \<bar>v\<bar>\<rfloor> + 1)" by simp
  have "of_int \<lfloor>log 2 \<bar>v\<bar>\<rfloor> + (1::real) = of_int (\<lfloor>log 2 \<bar>v\<bar>\<rfloor> + 1)" by simp
  with * have "2 powr (of_int \<lfloor>log 2 \<bar>v\<bar>\<rfloor>) \<le> \<bar>v\<bar> \<and> \<bar>v\<bar> < 2 powr (of_int (\<lfloor>log 2 \<bar>v\<bar>\<rfloor> + 1))" by metis
  then show "2 powi \<lfloor>log 2 \<bar>v\<bar>\<rfloor> \<le> \<bar>v\<bar>" "\<bar>v\<bar> < 2 powi (\<lfloor>log 2 \<bar>v\<bar>\<rfloor> + 1)"
    unfolding powr2_int by simp_all
qed

lemma floor_log2_eqI:
  assumes "2 powi e \<le> \<bar>v\<bar>" "\<bar>v\<bar> < 2 powi (e + 1)"
  shows "\<lfloor>log 2 \<bar>v\<bar>\<rfloor> = e"
proof -
  have "(0::real) < 2 powi e" by simp
  then have pos: "0 < \<bar>v\<bar>" using assms(1) by linarith
  have "of_int e + (1::real) = of_int (e + 1)" by simp
  then have "2 powr (of_int e + 1) = (2::real) powi (e + 1)" using powr2_int by metis
  with floor_log_eq_powr_iff[OF pos, of 2 e] assms show ?thesis 
    by (simp add: powr2_int)
qed

lemma pow2_pos [simp]: "(0::real) < 2 powi e" by simp

lemma fl_zero [simp]: "fl 0 = 0" by (simp add: fl_def)

lemma fl_error_quantum: "\<bar>fl v - v\<bar> \<le> 2 powi quantum v / 2"
proof (cases "v = 0")
  case True then show ?thesis by simp
next
  case False
  let ?q = "2 powi quantum v :: real"
  have q: "0 < ?q" by simp
  have "fl v - v = (of_int (rne (v / ?q)) - v / ?q) * ?q"
    using False q by (simp add: fl_def field_simps)
  then have "\<bar>fl v - v\<bar> = \<bar>of_int (rne (v / ?q)) - v / ?q\<bar> * ?q"
    using q by (simp add: abs_mult)
  also have "\<dots> \<le> (1/2) * ?q"
    by (rule mult_right_mono [OF rne_error]) simp
  finally show ?thesis by simp
qed

lemma quantum_le: 
  assumes "v \<noteq> 0"
  shows "2 powi quantum v \<le> \<bar>v\<bar> / 2 ^ 23 + 1 / 2 ^ 149"
proof (cases "\<lfloor>log 2 \<bar>v\<bar>\<rfloor> - 23 \<ge> -149")
  case True
  then have "quantum v = \<lfloor>log 2 \<bar>v\<bar>\<rfloor> - 23" by (simp add: quantum_def)
  then have "(2::real) powi quantum v = 2 powi \<lfloor>log 2 \<bar>v\<bar>\<rfloor> / 2 ^ 23"
    by (simp add: power_int_diff)
  also have "\<dots> \<le> \<bar>v\<bar> / 2 ^ 23"
    using binade(1)[OF assms] by (simp add: divide_right_mono)
  finally show ?thesis by (smt (verit) zero_less_power divide_pos_pos)
next
  case False
  then have "quantum v = -149" by (simp add: quantum_def)
  then have "(2::real) powi quantum v = 1 / 2 ^ 149"
    by (simp add: power_int_minus field_simps)
  then show ?thesis by simp
qed

lemma fl_error: "\<bar>fl v - v\<bar> \<le> \<bar>v\<bar> / 2 ^ 24 + 1 / 2 ^ 150"
proof (cases "v = 0")
  case True then show ?thesis by simp
next
  case False
  have "\<bar>fl v - v\<bar> \<le> 2 powi quantum v / 2" by (rule fl_error_quantum)
  also have "\<dots> \<le> (\<bar>v\<bar> / 2 ^ 23 + 1 / 2 ^ 149) / 2"
    using quantum_le[OF False] by simp
  also have "\<dots> = \<bar>v\<bar> / 2 ^ 24 + 1 / 2 ^ 150" by simp
  finally show ?thesis .
qed

lemma fl_nonneg: "0 \<le> v \<Longrightarrow> 0 \<le> fl v"
proof -
  assume v: "0 \<le> v"
  have "rne 0 \<le> rne (v / 2 powi quantum v)"
    by (rule rne_mono) (use v in simp)
  moreover have "rne 0 = 0" using rne_of_int[of 0] by simp
  ultimately show ?thesis by (simp add: fl_def)
qed

lemma fl_eval:
  assumes "2 powi e \<le> \<bar>v\<bar>" "\<bar>v\<bar> < 2 powi (e + 1)" "- 126 \<le> e"
  shows "fl v = of_int (rne (v / 2 powi (e - 23))) * 2 powi (e - 23)"
proof -
  have "\<lfloor>log 2 \<bar>v\<bar>\<rfloor> = e" using assms(1,2) by (rule floor_log2_eqI)
  then have "quantum v = e - 23" using assms(3) by (simp add: quantum_def)
  moreover have "v \<noteq> 0"
  proof
    assume "v = 0"
    with assms(1) have "(2::real) powi e \<le> 0" by simp
    with pow2_pos[of e] show False by linarith
  qed
  ultimately show ?thesis by (simp add: fl_def)
qed

lemma fl_exact:
  assumes "v = of_int m * 2 powi k" "\<bar>m\<bar> < 2 ^ 24" "- 149 \<le> k"
  shows "fl v = v"
proof (cases "v = 0")
  case True then show ?thesis by simp
next
  case False
  let ?e = "\<lfloor>log 2 \<bar>v\<bar>\<rfloor>"
  have "2 powi ?e \<le> \<bar>v\<bar>" by (rule binade(1)[OF False])
  also have "\<bar>v\<bar> = of_int \<bar>m\<bar> * 2 powi k" by (simp add: assms(1) abs_mult)
  also have "\<dots> < 2 ^ 24 * 2 powi k"
  proof -
    have "(of_int \<bar>m\<bar> :: real) < of_int (2 ^ 24)" using assms(2) by (simp only: of_int_less_iff)
    then show ?thesis by simp
  qed
  also have "\<dots> = 2 powi (24 + k)" by (simp add: power_int_add)
  finally have lt: "(2::real) powi ?e < 2 powi (24 + k)" .
  have "?e < 24 + k"
  proof (rule ccontr)
    assume "\<not> ?e < 24 + k"
    then have "24 + k \<le> ?e" by simp
    then have "(2::real) powi (24 + k) \<le> 2 powi ?e" by (rule power_int_increasing) simp
    with lt show False by linarith
  qed
  then have qk: "quantum v \<le> k" using assms(3) by (simp add: quantum_def)
  define j where "j = nat (k - quantum v)"
  have "v / 2 powi quantum v = of_int m * 2 powi (k - quantum v)"
    by (simp add: assms(1) power_int_diff)
  also have "\<dots> = of_int (m * 2 ^ j)" using qk by (simp add: j_def power_int_def)
  finally have "rne (v / 2 powi quantum v) = m * 2 ^ j" by (simp only: rne_of_int)
  then have "fl v = of_int (m * 2 ^ j) * 2 powi quantum v" using False by (simp add: fl_def)
  also have "\<dots> = of_int m * (2 powi (k - quantum v) * 2 powi quantum v)"
    using qk by (simp add: j_def power_int_def)
  also have "\<dots> = of_int m * 2 powi k" by (simp add: power_int_diff)
  finally show ?thesis using assms(1) by simp
qed

lemma fl_of_nat: "n < 16777216 \<Longrightarrow> fl (of_nat n) = of_nat n"
  by (rule fl_exact[where m = "int n" and k = 0]) simp_all

lemma abs_diff_leD: "\<bar>a - b\<bar> \<le> e \<Longrightarrow> a \<le> b + e \<and> b - e \<le> (a::real)"
  by (simp add: abs_le_iff)

lemma blend_value_bounds:
  assumes al: "0 \<le> alpha" "alpha \<le> 1"
    and A: "0 \<le> A" "A \<le> 255" and C: "0 \<le> C" "C \<le> 255"
  defines "r \<equiv> fadd (fmul (fsub 1 alpha) A) (fmul alpha C)"
  shows "0 \<le> r" "min A C - 1 < r" "r < max A C + 1"
proof -
  define s where "s = fsub 1 alpha"
  define t1 where "t1 = fmul s A"
  define t2 where "t2 = fmul alpha C"
  define E where "E = (1 - alpha) * A + alpha * C"
  have r: "r = fl (t1 + t2)" by (simp add: r_def t1_def t2_def s_def fadd_def)
  have eta: "(1::real) / 2 ^ 150 \<le> 1 / 2 ^ 24" by simp
  have s0: "0 \<le> s" unfolding s_def fsub_def using al by (intro fl_nonneg) simp
  have "\<bar>s - (1 - alpha)\<bar> \<le> \<bar>1 - alpha\<bar> / 2 ^ 24 + 1 / 2 ^ 150"
    unfolding s_def fsub_def by (rule fl_error)
  also have "\<dots> \<le> 1 / 2 ^ 24 + 1 / 2 ^ 24" using al eta by (simp add: field_simps)
  finally have s_err: "\<bar>s - (1 - alpha)\<bar> \<le> 1 / 2 ^ 23" by simp
  have s1: "s \<le> 2"
  proof -
    have "s - (1 - alpha) \<le> 1 / 2 ^ 23" using s_err abs_ge_self[of "s - (1 - alpha)"] by linarith
    moreover have "(1::real) / 2 ^ 23 \<le> 1" by simp
    ultimately show ?thesis using al by linarith
  qed
  have sA0: "0 \<le> s * A" using s0 A by simp
  have sA: "s * A \<le> 510" using mult_mono[OF s1 A(2), of ] s0 A by simp
  have sA_err: "\<bar>s * A - (1 - alpha) * A\<bar> \<le> 255 / 2 ^ 23"
  proof -
    have "\<bar>s * A - (1 - alpha) * A\<bar> = \<bar>s - (1 - alpha)\<bar> * A"
      using A by (simp add: abs_mult flip: left_diff_distrib)
    also have "\<dots> \<le> (1 / 2 ^ 23) * 255"
      by (rule mult_mono[OF s_err A(2)]) (use A in simp_all)
    finally show ?thesis by simp
  qed
  have t10: "0 \<le> t1" unfolding t1_def fmul_def using sA0 by (rule fl_nonneg)
  have "\<bar>t1 - s * A\<bar> \<le> \<bar>s * A\<bar> / 2 ^ 24 + 1 / 2 ^ 150"
    unfolding t1_def fmul_def by (rule fl_error)
  also have "\<dots> \<le> 510 / 2 ^ 24 + 1 / 2 ^ 24" using sA sA0 eta by (simp add: field_simps)
  finally have t1_err: "\<bar>t1 - s * A\<bar> \<le> 511 / 2 ^ 24" by simp
  have aC0: "0 \<le> alpha * C" using al C by simp
  have aC: "alpha * C \<le> 255" using mult_mono[OF al(2) C(2)] al C by simp
  have t20: "0 \<le> t2" unfolding t2_def fmul_def using aC0 by (rule fl_nonneg)
  have "\<bar>t2 - alpha * C\<bar> \<le> \<bar>alpha * C\<bar> / 2 ^ 24 + 1 / 2 ^ 150"
    unfolding t2_def fmul_def by (rule fl_error)
  also have "\<dots> \<le> 255 / 2 ^ 24 + 1 / 2 ^ 24" using aC aC0 eta by (simp add: field_simps)
  finally have t2_err: "\<bar>t2 - alpha * C\<bar> \<le> 256 / 2 ^ 24" by simp
  have sum_le: "t1 + t2 \<le> 1024"
  proof -
    have "t1 \<le> s * A + 511 / 2 ^ 24" using abs_diff_leD[OF t1_err] by simp
    moreover have "t2 \<le> alpha * C + 256 / 2 ^ 24" using abs_diff_leD[OF t2_err] by simp
    moreover have "(511::real) / 2 ^ 24 \<le> 1" "(256::real) / 2 ^ 24 \<le> 1" by simp_all
    ultimately show ?thesis using sA aC by linarith
  qed
  have "\<bar>r - (t1 + t2)\<bar> \<le> \<bar>t1 + t2\<bar> / 2 ^ 24 + 1 / 2 ^ 150"
    unfolding r by (rule fl_error)
  also have "\<dots> \<le> 1024 / 2 ^ 24 + 1 / 2 ^ 24" using sum_le t10 t20 eta by (simp add: field_simps)
  finally have r_err: "\<bar>r - (t1 + t2)\<bar> \<le> 1025 / 2 ^ 24" by simp
  have "\<bar>r - E\<bar> \<le> \<bar>r - (t1 + t2)\<bar> + \<bar>t1 - s * A\<bar> + \<bar>s * A - (1 - alpha) * A\<bar> + \<bar>t2 - alpha * C\<bar>"
    unfolding E_def by linarith
  also have "\<dots> \<le> 1025 / 2 ^ 24 + 511 / 2 ^ 24 + 255 / 2 ^ 23 + 256 / 2 ^ 24"
    using r_err t1_err sA_err t2_err by linarith
  also have "\<dots> < 1" by simp
  finally have close: "\<bar>r - E\<bar> < 1" .
  have E_lo: "min A C \<le> E"
  proof -
    have "min A C = (1 - alpha) * min A C + alpha * min A C" by (simp add: algebra_simps)
    also have "\<dots> \<le> (1 - alpha) * A + alpha * C"
      by (intro add_mono mult_left_mono) (use al in simp_all)
    finally show ?thesis by (simp add: E_def)
  qed
  have E_hi: "E \<le> max A C"
  proof -
    have "(1 - alpha) * A + alpha * C \<le> (1 - alpha) * max A C + alpha * max A C"
      by (intro add_mono mult_left_mono) (use al in simp_all)
    also have "\<dots> = max A C" by (simp add: algebra_simps)
    finally show ?thesis by (simp add: E_def)
  qed
  show "0 \<le> r" unfolding r using t10 t20 by (intro fl_nonneg) simp
  show "min A C - 1 < r" using close E_lo by (simp add: abs_less_iff)
  show "r < max A C + 1" using close E_hi by (simp add: abs_less_iff)
qed

lemma fl_near:
  assumes "\<bar>v\<bar> \<le> 1"
  shows "v - 1 / 2 ^ 23 \<le> fl v" "fl v \<le> v + 1 / 2 ^ 23"
proof -
  have "\<bar>fl v - v\<bar> \<le> \<bar>v\<bar> / 2 ^ 24 + 1 / 2 ^ 150" by (rule fl_error)
  also have "\<dots> \<le> 1 / 2 ^ 24 + 1 / 2 ^ 24"
    by (intro add_mono divide_right_mono assms) simp_all
  also have "\<dots> = 1 / 2 ^ 23" by simp
  finally have "\<bar>fl v - v\<bar> \<le> 1 / 2 ^ 23" .
  from abs_diff_leD[OF this] show "v - 1 / 2 ^ 23 \<le> fl v" "fl v \<le> v + 1 / 2 ^ 23"
    by simp_all
qed

lemma fl_between:
  assumes "lo \<le> v" "v \<le> hi" "0 \<le> lo" "hi \<le> 1"
  shows "lo - 1 / 2 ^ 23 \<le> fl v" "fl v \<le> hi + 1 / 2 ^ 23"
proof -
  have "\<bar>v\<bar> \<le> 1" using assms by simp
  from fl_near[OF this] assms show "lo - 1 / 2 ^ 23 \<le> fl v" "fl v \<le> hi + 1 / 2 ^ 23"
    by linarith+
qed

lemma fl_one [simp]: "fl 1 = 1"
  using fl_of_nat[of 1] by simp

lemma fl_numeral [simp]: "(numeral n :: nat) < 16777216 \<Longrightarrow> fl (numeral n) = numeral n"
  using fl_of_nat[of "numeral n"] by simp

lemma fl_half [simp]: "fl (1 / 2) = 1 / 2"
  by (rule fl_exact[where m = 1 and k = "-1"]) simp_all

lemma fl_inverse_numeral_512 [simp]: "fl (1 / 512) = 1 / 512"
  by (rule fl_exact[where m = 1 and k = "-9"]) simp_all

lemma fl_5_1024 [simp]: "fl (5 / 1024) = 5 / 1024"
  by (rule fl_exact[where m = 5 and k = "-10"]) simp_all

lemma sqrt_4_1048576 [simp]: "sqrt (1 / 262144) = 1 / 512"
  by (rule real_sqrt_unique) (simp_all add: power2_eq_square)

lemma sqrt_25_1048576 [simp]: "sqrt (25 / 1048576) = 5 / 1024"
  by (rule real_sqrt_unique) (simp_all add: power2_eq_square)

lemma fl_inverse_numeral_256 [simp]: "fl (1 / 256) = 1 / 256"
  by (rule fl_exact[where m = 1 and k = "-8"]) simp_all

lemma sqrt_1_65536 [simp]: "sqrt (1 / 65536) = 1 / 256"
  by (rule real_sqrt_unique) (simp_all add: power2_eq_square)

lemma fdiv_zero [simp]: "fdiv 0 b = 0" by (simp add: fdiv_def)

lemma fsub_self [simp]: "fsub a a = 0" by (simp add: fsub_def)

lemma fsqrt_zero [simp]: "fsqrt 0 = 0" by (simp add: fsqrt_def)

section \<open>Properties of the blend\<close>

lemma fl_unat8: "fl (real (unat (a :: 8 word))) = real (unat a)"
proof -
  have "unat a < 2 ^ 8" using unsigned_less[of a, where ?'a = nat] by simp
  then have "unat a < 16777216" by simp
  then show ?thesis by (rule fl_of_nat)
qed

lemma to_uint8_unat: "to_uint8 (real (unat (a :: 8 word))) = Inr a"
proof -
  have "uint a < 2 ^ 8" using unsigned_less[of a, where ?'a = int] by simp
  then have "int (unat a) \<le> 255" by simp
  moreover have "\<lfloor>real (unat a)\<rfloor> = int (unat a)" by (simp del: of_nat_unat)
  moreover have "word_of_int (int (unat a)) = a" by simp
  ultimately show ?thesis
    by (simp add: to_uint8_def Let_def del: of_nat_unat)
qed

lemma blend_channel_zero: "blend_channel 0 a c = Inr a"
  by (simp add: blend_channel_def fsub_def fmul_def fadd_def fl_unat8 to_uint8_unat del: of_nat_unat)

lemma blend_channel_one: "blend_channel 1 a c = Inr c"
  by (simp add: blend_channel_def fsub_def fmul_def fadd_def fl_unat8 to_uint8_unat del: of_nat_unat)

lemma blend_alpha_zero:
  assumes "mcd \<noteq> 0" "fdiv (fsub mcd (fsqrt csd)) mcd = 0"
  shows "blend mcd csd acc_rgb cloud_rgb = Inr (pack_rgb (red acc_rgb) (green acc_rgb) (blue acc_rgb))"
  using assms by (simp add: blend_def blend_channel_zero)

lemma blend_alpha_one:
  assumes "mcd \<noteq> 0" "fdiv (fsub mcd (fsqrt csd)) mcd = 1"
  shows "blend mcd csd acc_rgb cloud_rgb = Inr (pack_rgb (red cloud_rgb) (green cloud_rgb) (blue cloud_rgb))"
  using assms by (simp add: blend_def blend_channel_one)

lemma blend_half: "blend_channel (1 / 2) 10 20 = Inr 15"
  by (simp add: blend_channel_def fsub_def fmul_def fadd_def to_uint8_def)

section \<open>Properties of the merge\<close>

lemma at_index_Inr: "at_index xs i = Inr v \<longleftrightarrow> i < length xs \<and> v = xs ! i"
  by (auto simp: at_index_def)

lemma at_index_Inl: "at_index xs i = Inl e \<longleftrightarrow> \<not> i < length xs \<and> e = IndexOutOfRange"
  by (auto simp: at_index_def)

lemma fix_color_cases:
  assumes "fix_color kd contour cloud mcd p = Inr p'"
  shows "p' = p \<or> (w p \<noteq> 1 \<and> (\<exists>c. p' = p\<lparr>rgb := c, w := 1\<rparr>))"
  using assms
  by (auto simp: fix_color_def Let_def split: if_splits list.splits sum.splits prod.splits)

lemma fix_color_xyz:
  assumes "fix_color kd contour cloud mcd p = Inr p'"
  shows "x p' = x p" "y p' = y p" "z p' = z p"
  using fix_color_cases[OF assms] by auto

lemma fix_color_blended: "w p = 1 \<Longrightarrow> fix_color kd contour cloud mcd p = Inr p"
  by (simp add: fix_color_def)

lemma fix_color_idem:
  assumes "fix_color kd contour cloud mcd p = Inr p'"
  shows "fix_color kd contour cloud mcd p' = Inr p'"
  using fix_color_cases[OF assms] assms by (auto simp: fix_color_blended)

lemma fix_color_explicit:
  assumes "fix_color kd contour cloud mcd p = Inr p'" and "w p \<noteq> 1"
  shows "(case nearestKSearch kd (map xy_of cloud) (xy_of p) 1 of
            [] \<Rightarrow> p' = p
          | (cloud_idx, cloud_squared_dist) # _ \<Rightarrow>
              (case nearestKSearch kd contour (xy_of p) 1 of
                 [] \<Rightarrow> p' = p
               | (contour_idx, contour_squared_dist) # _ \<Rightarrow>
                   cloud_idx < length cloud
                 \<and> (\<exists>c. blend mcd contour_squared_dist (rgb p) (rgb (cloud ! cloud_idx)) = Inr c
                        \<and> p' = p\<lparr>rgb := c, w := 1\<rparr>)))"
  using assms
  by (auto simp: fix_color_def Let_def at_index_def split: list.splits sum.splits if_splits)

lemma fix_colors_length:
  "fix_colors kd contour cloud mcd idxs acc = Inr acc' \<Longrightarrow> length acc' = length acc"
  by (induction idxs arbitrary: acc) (auto split: sum.splits)

lemma fix_colors_nth:
  assumes "fix_colors kd contour cloud mcd idxs acc = Inr acc'" "i < length acc"
  shows "(i \<in> set idxs \<longrightarrow> fix_color kd contour cloud mcd (acc ! i) = Inr (acc' ! i))
       \<and> (i \<notin> set idxs \<longrightarrow> acc' ! i = acc ! i)"
  using assms
proof (induction idxs arbitrary: acc)
  case Nil
  then show ?case by simp
next
  case (Cons j idxs)
  from Cons.prems(1) obtain p_fixed where
    j: "j < length acc" and
    fx: "fix_color kd contour cloud mcd (acc ! j) = Inr p_fixed" and
    rest: "fix_colors kd contour cloud mcd idxs (acc[j := p_fixed]) = Inr acc'"
    by (auto simp: at_index_Inr split: sum.splits)
  have len: "i < length (acc[j := p_fixed])" using Cons.prems(2) by simp
  note ih = Cons.IH[OF rest len]
  show ?case
  proof (cases "i = j")
    case True
    have "acc' ! i = p_fixed"
    proof (cases "i \<in> set idxs")
      case True
      with ih have "fix_color kd contour cloud mcd ((acc[j := p_fixed]) ! i) = Inr (acc' ! i)" by simp
      then have "fix_color kd contour cloud mcd p_fixed = Inr (acc' ! i)"
        using \<open>i = j\<close> j by simp
      with fix_color_idem[OF fx] show ?thesis by simp
    next
      case False
      with ih have "acc' ! i = (acc[j := p_fixed]) ! i" by simp
      then show ?thesis using \<open>i = j\<close> j by simp
    qed
    then show ?thesis using True fx by simp
  next
    case False
    then show ?thesis using ih by simp
  qed
qed

lemma fix_colors_untouched:
  assumes "fix_colors kd contour cloud mcd idxs acc = Inr acc'" "i < length acc"
    "i \<notin> set idxs \<or> w (acc ! i) = 1"
  shows "acc' ! i = acc ! i"
  using fix_colors_nth[OF assms(1,2)] assms(3) by (auto simp: fix_color_blended)

lemma fix_colors_xyz:
  assumes "fix_colors kd contour cloud mcd idxs acc = Inr acc'" "i < length acc"
  shows "x (acc' ! i) = x (acc ! i)" "y (acc' ! i) = y (acc ! i)" "z (acc' ! i) = z (acc ! i)"
  using fix_colors_nth[OF assms] fix_color_xyz[of kd contour cloud mcd "acc ! i" "acc' ! i"]
  by (cases "i \<in> set idxs"; simp)+

lemma min_element_less: "ds \<noteq> [] \<Longrightarrow> min_element ds < length ds"
  by (induction ds rule: min_element.induct) (auto simp: Let_def)

lemma min_element_least: "d \<in> set ds \<Longrightarrow> ds ! min_element ds \<le> d"
  by (induction ds arbitrary: d rule: min_element.induct) (fastforce simp: Let_def)+

lemma is_border_iff: "is_border md ds \<longleftrightarrow> (\<forall>d\<in>set ds. \<not> d < fmul md md)"
  by (induction ds) auto

lemma filter_z_Inr:
  assumes "filter_z acc idxs pz = Inr pz'"
  shows "(\<forall>i\<in>set idxs. i < length acc) \<and> pz' = foldl (\<lambda>zk i. fdiv (fadd zk (z (acc ! i))) 2) pz idxs"
  using assms by (induction idxs arbitrary: pz) (auto simp: at_index_def split: if_splits)

lemma merge_overlap_cases:
  assumes "merge_overlap kd contour md mcd cp res acc = Inr (a, acc')"
  obtains pz prgb where
    "filter_z acc (map fst res) (z cp) = Inr pz"
    "primary_match res < length acc"
    "blend_color kd contour mcd (xy_of cp) (rgb (acc ! primary_match res)) (rgb cp) = Inr prgb"
    "is_border md (map snd res) \<and> a = Border
        \<and> acc' = acc @ [\<lparr>x = x cp, y = y cp, z = pz, rgb = prgb, w = 1\<rparr>]
     \<or> \<not> is_border md (map snd res) \<and> a = Inside
        \<and> acc' = acc[primary_match res := (acc ! primary_match res)\<lparr>z := pz, rgb := prgb, w := 1\<rparr>]"
  using assms
  by (auto simp: merge_overlap_def primary_match_def Let_def at_index_Inr
           split: sum.splits if_splits)

lemma insert_or_update_empty:
  "insert_or_update kd contour md mcd cp [] acc = Inr (NoNeighbor, acc @ [new_point cp])"
  by (simp add: insert_or_update_def)

lemma insert_or_update_nonempty:
  "res \<noteq> [] \<Longrightarrow> insert_or_update kd contour md mcd cp res acc
     = merge_overlap kd contour md mcd cp res acc"
  by (simp add: insert_or_update_def)

lemma insert_or_update_cases:
  assumes "insert_or_update kd contour md mcd cp res acc = Inr (a, acc1)"
  shows "res = [] \<and> a = NoNeighbor \<and> acc1 = acc @ [new_point cp]
       \<or> res \<noteq> [] \<and> a = Border \<and> (\<exists>p. acc1 = acc @ [p])
       \<or> res \<noteq> [] \<and> a = Inside \<and> primary_match res < length acc
            \<and> (\<exists>pz prgb. blend_color kd contour mcd (xy_of cp) (rgb (acc ! primary_match res)) (rgb cp) = Inr prgb
                  \<and> filter_z acc (map fst res) (z cp) = Inr pz
                  \<and> acc1 = acc[primary_match res := (acc ! primary_match res)\<lparr>z := pz, rgb := prgb, w := 1\<rparr>])"
proof (cases "res = []")
  case True
  with assms show ?thesis by (simp add: insert_or_update_empty)
next
  case False
  with assms have "merge_overlap kd contour md mcd cp res acc = Inr (a, acc1)"
    by (simp add: insert_or_update_nonempty)
  then show ?thesis using False by (elim merge_overlap_cases) auto
qed

lemma merge_point_cases:
  assumes "merge_point kd acc_xy contour cloud md mcd cp acc = Inr (a, acc')"
    and "radiusSearch kd acc_xy (xy_of cp) (fmul 2 md) 10 = res"
  obtains acc1 where
    "insert_or_update kd contour md mcd cp res acc = Inr (a, acc1)"
    "fix_colors kd contour cloud mcd (map fst res) acc1 = Inr acc'"
  using assms by (auto simp: merge_point_def Let_def split: sum.splits prod.splits)

lemma merge_point_no_neighbor:
  assumes "radiusSearch kd acc_xy (xy_of cp) (fmul 2 md) 10 = []"
  shows "merge_point kd acc_xy contour cloud md mcd cp acc = Inr (NoNeighbor, acc @ [new_point cp])"
  using assms by (simp add: merge_point_def insert_or_update_empty)

lemma primary_match_mem: "res \<noteq> [] \<Longrightarrow> primary_match res \<in> set (map fst res)"
  unfolding primary_match_def
  by (rule nth_mem) (use min_element_less[of "map snd res"] in simp)

lemma merge_point_result:
  assumes "merge_point kd acc_xy contour cloud md mcd cp acc = Inr (a, acc')"
    and "radiusSearch kd acc_xy (xy_of cp) (fmul 2 md) 10 = res" and "res \<noteq> []"
  obtains pz prgb acc1 where
    "filter_z acc (map fst res) (z cp) = Inr pz"
    "primary_match res < length acc"
    "blend_color kd contour mcd (xy_of cp) (rgb (acc ! primary_match res)) (rgb cp) = Inr prgb"
    "is_border md (map snd res) \<and> a = Border
        \<and> acc1 = acc @ [\<lparr>x = x cp, y = y cp, z = pz, rgb = prgb, w = 1\<rparr>]
     \<or> \<not> is_border md (map snd res) \<and> a = Inside
        \<and> acc1 = acc[primary_match res := (acc ! primary_match res)\<lparr>z := pz, rgb := prgb, w := 1\<rparr>]"
    "fix_colors kd contour cloud mcd (map fst res) acc1 = Inr acc'"
proof -
  from assms(1,2) obtain acc1 where
    iu: "insert_or_update kd contour md mcd cp res acc = Inr (a, acc1)" and
    fc: "fix_colors kd contour cloud mcd (map fst res) acc1 = Inr acc'"
    by (rule merge_point_cases)
  from iu assms(3) have "merge_overlap kd contour md mcd cp res acc = Inr (a, acc1)"
    by (simp add: insert_or_update_nonempty)
  then show thesis
    by (rule merge_overlap_cases) (rule that, assumption+, rule fc)
qed

lemma blend_color_explicit:
  assumes "blend_color kd contour mcd sp acc_rgb cloud_rgb = Inr prgb"
  shows "(case nearestKSearch kd contour sp 1 of
            [] \<Rightarrow> prgb = cloud_rgb
          | (contour_idx, contour_squared_dist) # _ \<Rightarrow>
              blend mcd contour_squared_dist acc_rgb cloud_rgb = Inr prgb)"
  using assms by (auto simp: blend_color_def split: list.splits)

lemma reset_w_frame:
  "map x (reset_w acc) = map x acc \<and> map y (reset_w acc) = map y acc
   \<and> map z (reset_w acc) = map z acc \<and> map rgb (reset_w acc) = map rgb acc
   \<and> map w (reset_w acc) = replicate (length acc) 0"
  by (induction acc) (simp_all add: reset_w_def)

lemma radius_sound_disjoint:
  assumes snd: "radius_sound kd" and md: "0 \<le> md"
    and far: "\<forall>q\<in>set acc_xy. fmul 2 md < sqrt (sqr_dist sp q)"
  shows "radiusSearch kd acc_xy sp (fmul 2 md) K = []"
proof (rule ccontr)
  assume "radiusSearch kd acc_xy sp (fmul 2 md) K \<noteq> []"
  then obtain i d where mem: "(i, d) \<in> set (radiusSearch kd acc_xy sp (fmul 2 md) K)"
    by (cases "radiusSearch kd acc_xy sp (fmul 2 md) K") auto
  with snd have i: "i < length acc_xy" and d: "d = sqr_dist sp (acc_xy ! i)"
    and le: "d \<le> fmul 2 md * fmul 2 md"
    unfolding radius_sound_def by blast+
  have r0: "0 \<le> fmul 2 md" unfolding fmul_def using md by (intro fl_nonneg) simp
  have "sqrt d \<le> sqrt (fmul 2 md * fmul 2 md)" by (rule real_sqrt_le_mono[OF le])
  also have "\<dots> = fmul 2 md" using r0 by simp
  finally have "sqrt (sqr_dist sp (acc_xy ! i)) \<le> fmul 2 md" using d by simp
  moreover have "fmul 2 md < sqrt (sqr_dist sp (acc_xy ! i))" using far i by simp
  ultimately show False by simp
qed

lemma merge_loop_no_neighbors:
  assumes "\<forall>cp\<in>set todo. radiusSearch kd acc_xy (xy_of cp) (fmul 2 md) 10 = []"
  shows "merge_loop kd acc_xy contour cloud md mcd todo acc
       = Inr (replicate (length todo) NoNeighbor, acc @ map new_point todo)"
  using assms
  by (induction todo arbitrary: acc) (simp_all add: merge_point_no_neighbor)

lemma max_contour_dist_loop_no_neighbors:
  assumes "\<forall>cp\<in>set cloud. radiusSearch kd acc_xy (xy_of cp) (fmul 2 md) 1 = []"
  shows "max_contour_dist_loop kd acc_xy contour md cloud m = m"
  using assms by (induction cloud arbitrary: m) simp_all

lemma indexed_dists_mem:
  assumes "(i, d) \<in> set (indexed_dists pts sp)"
  shows "i < length pts \<and> d = sqr_dist sp (pts ! i)"
  using assms unfolding indexed_dists_def
  by (auto simp: set_zip)

lemma radius_sound_flann: "radius_sound flann"
  unfolding radius_sound_def
proof (intro allI impI)
  fix pts sp r K i d
  assume "(i, d) \<in> set (radiusSearch flann pts sp r K)"
  then have "(i, d) \<in> set (filter (\<lambda>(i, d). d \<le> r * r) (indexed_dists pts sp))"
    by (auto simp: flann_def radius_query_def Let_def dest: in_set_takeD split: if_splits)
  then show "i < length pts \<and> d = sqr_dist sp (pts ! i) \<and> d \<le> r * r"
    using indexed_dists_mem[of i d pts sp] by auto
qed

section \<open>The constants of the pipeline\<close>

lemma voxel_size_bounds: "49 / 10000 \<le> voxel_size" "voxel_size \<le> 51 / 10000"
proof -
  have "5 / 1000 - 1 / 2 ^ 23 \<le> fl (5 / 1000)" "fl (5 / 1000) \<le> 5 / 1000 + 1 / 2 ^ 23"
    by (rule fl_between[of "5/1000" _ "5/1000"]; simp)+
  then show "49 / 10000 \<le> voxel_size" "voxel_size \<le> 51 / 10000"
    by (simp_all add: voxel_size_def)
qed

lemma max_dist_bounds: "33 / 10000 \<le> max_dist" "max_dist \<le> 38 / 10000"
proof -
  note vs = voxel_size_bounds
  have vs0: "0 \<le> voxel_size" using vs(1) by simp
  have sq_lo: "(49 / 10000) * (49 / 10000) \<le> voxel_size * voxel_size"
    by (rule mult_mono[OF vs(1) vs(1)]) (use vs0 in simp_all)
  have sq_hi: "voxel_size * voxel_size \<le> (51 / 10000) * (51 / 10000)"
    by (rule mult_mono[OF vs(2) vs(2)]) (use vs0 in simp_all)
  define s where "s = fmul voxel_size voxel_size"
  have s: "238 / 10000000 \<le> s" "s \<le> 262 / 10000000"
  proof -
    have "(49 / 10000) * (49 / 10000) - 1 / 2 ^ 23 \<le> fl (voxel_size * voxel_size)"
      "fl (voxel_size * voxel_size) \<le> (51 / 10000) * (51 / 10000) + 1 / 2 ^ 23"
      by (rule fl_between[OF sq_lo sq_hi]; simp)+
    then show "238 / 10000000 \<le> s" "s \<le> 262 / 10000000"
      by (simp_all add: s_def fmul_def)
  qed
  define h where "h = fdiv s 2"
  have h: "117 / 10000000 \<le> h" "h \<le> 133 / 10000000"
  proof -
    have "119 / 10000000 \<le> s / 2" "s / 2 \<le> 131 / 10000000" using s by simp_all
    from fl_between[OF this] show "117 / 10000000 \<le> h" "h \<le> 133 / 10000000"
      by (simp_all add: h_def fdiv_def)
  qed
  have rt_lo: "34 / 10000 \<le> sqrt h"
    by (rule real_le_rsqrt) (use h(1) in \<open>simp add: power2_eq_square\<close>)
  have rt_hi: "sqrt h \<le> 37 / 10000"
    by (rule real_le_lsqrt) (use h in \<open>simp_all add: power2_eq_square\<close>)
  have md: "max_dist = fl (sqrt h)"
    by (simp add: max_dist_def fsqrt_def h_def s_def)
  from fl_between[OF rt_lo rt_hi] show "33 / 10000 \<le> max_dist" "max_dist \<le> 38 / 10000"
    by (simp_all add: md)
qed

lemma max_dist_nonneg: "0 \<le> max_dist"
  using max_dist_bounds(1) by simp

lemma max_dist_sq_bounds:
  "10 / 1000000 \<le> fmul max_dist max_dist" "fmul max_dist max_dist \<le> 15 / 1000000"
proof -
  note md = max_dist_bounds
  have lo: "(33 / 10000) * (33 / 10000) \<le> max_dist * max_dist"
    by (rule mult_mono[OF md(1) md(1)]) (use max_dist_nonneg in simp_all)
  have hi: "max_dist * max_dist \<le> (38 / 10000) * (38 / 10000)"
    by (rule mult_mono[OF md(2) md(2)]) (use max_dist_nonneg in simp_all)
  from fl_between[OF lo hi]
  show "10 / 1000000 \<le> fmul max_dist max_dist" "fmul max_dist max_dist \<le> 15 / 1000000"
    by (simp_all add: fmul_def)
qed

lemma coverage_radius_bounds:
  "65 / 10000 \<le> fmul 2 max_dist" "fmul 2 max_dist \<le> 77 / 10000"
proof -
  have "66 / 10000 \<le> 2 * max_dist" "2 * max_dist \<le> 76 / 10000"
    using max_dist_bounds by simp_all
  from fl_between[OF this]
  show "65 / 10000 \<le> fmul 2 max_dist" "fmul 2 max_dist \<le> 77 / 10000"
    by (simp_all add: fmul_def)
qed

lemma coverage_sq_bounds:
  "42 / 1000000 \<le> fmul 2 max_dist * fmul 2 max_dist"
  "fmul 2 max_dist * fmul 2 max_dist \<le> 60 / 1000000"
proof -
  note r = coverage_radius_bounds
  have r0: "0 \<le> fmul 2 max_dist" using r(1) by simp
  have "(65 / 10000) * (65 / 10000) \<le> fmul 2 max_dist * fmul 2 max_dist"
    by (rule mult_mono[OF r(1) r(1)]) (use r0 in simp_all)
  then show "42 / 1000000 \<le> fmul 2 max_dist * fmul 2 max_dist" by simp
  have "fmul 2 max_dist * fmul 2 max_dist \<le> (77 / 10000) * (77 / 10000)"
    by (rule mult_mono[OF r(2) r(2)]) (use r0 in simp_all)
  then show "fmul 2 max_dist * fmul 2 max_dist \<le> 60 / 1000000" by simp
qed

lemma cov1: "1 / 1048576 \<le> fmul 2 max_dist * fmul 2 max_dist"
  using coverage_sq_bounds(1) by simp

lemma cov4: "1 / 262144 \<le> fmul 2 max_dist * fmul 2 max_dist"
  using coverage_sq_bounds(1) by simp

lemma cov25: "25 / 1048576 \<le> fmul 2 max_dist * fmul 2 max_dist"
  using coverage_sq_bounds(1) by simp

lemma cov_far: "\<not> 1 \<le> fmul 2 max_dist * fmul 2 max_dist"
  using coverage_sq_bounds(2) by simp

lemma in1: "1 / 1048576 < fmul max_dist max_dist"
  using max_dist_sq_bounds(1) by simp

lemma out25: "\<not> 25 / 1048576 < fmul max_dist max_dist"
  using max_dist_sq_bounds(2) by simp

section \<open>The scenes, run\<close>

text \<open>A cloud point inside the accumulator, with two neighbours.\<close>

lemma inside_radius:
  "radiusSearch flann (map xy_of [ex_A0, ex_A1]) (xy_of ex_P) (fmul 2 max_dist) 10
     = [(0, 1 / 1048576), (1, 1 / 262144)]"
  using cov1 cov4
  by (simp add: flann_def radius_query_def indexed_dists_def xy_of_def sqr_dist_def)

lemma inside_radius1:
  "radiusSearch flann (map xy_of [ex_A0, ex_A1]) (xy_of ex_P) (fmul 2 max_dist) 1
     = [(0, 1 / 1048576)]"
  using cov1 cov4
  by (simp add: flann_def radius_query_def indexed_dists_def xy_of_def sqr_dist_def)

lemma inside_contour_P:
  "nearestKSearch flann [ex_C1] (xy_of ex_P) 1 = [(0, 1 / 262144)]"
  by (simp add: flann_def nearest_query_def indexed_dists_def xy_of_def sqr_dist_def)

lemma inside_contour_A1:
  "nearestKSearch flann [ex_C1] (xy_of ex_A1) 1 = [(0, 0)]"
  by (simp add: flann_def nearest_query_def indexed_dists_def xy_of_def sqr_dist_def)

lemma inside_cloud_A1:
  "nearestKSearch flann (map xy_of [ex_P]) (xy_of ex_A1) 1 = [(0, 1 / 262144)]"
  by (simp add: flann_def nearest_query_def indexed_dists_def xy_of_def sqr_dist_def)

lemma inside_mcd:
  "max_contour_dist_loop flann (map xy_of [ex_A0, ex_A1]) [ex_C1] max_dist [ex_P] 0 = 1 / 512"
  using inside_radius1 inside_contour_P
  by (simp add: fsqrt_def)

lemma inside_filter_z: "filter_z [ex_A0, ex_A1] [0, 1] 0 = Inr 2"
  by (simp add: at_index_def fadd_def fdiv_def)

lemma inside_blend_P:
  "blend (1 / 512) (1 / 262144) 0x102030 0x708090 = Inr 0x102030"
  by (subst blend_alpha_zero)
     (simp_all add: fsqrt_def red_def green_def blue_def pack_rgb_def)

lemma inside_blend_A1:
  "blend (1 / 512) 0 0x405060 0x708090 = Inr 0x708090"
  by (subst blend_alpha_one)
     (simp_all add: fsub_def fdiv_def red_def green_def blue_def pack_rgb_def)

lemma inside_overlap:
  "merge_overlap flann [ex_C1] max_dist (1 / 512) ex_P [(0, 1 / 1048576), (1, 1 / 262144)] [ex_A0, ex_A1]
     = Inr (Inside, [\<lparr>x = 0, y = 0, z = 2, rgb = 0x102030, w = 1\<rparr>, ex_A1])"
  using in1 inside_contour_P inside_filter_z inside_blend_P
  by (simp add: merge_overlap_def at_index_def blend_color_def)

lemma inside_fix_A1:
  "fix_color flann [ex_C1] [ex_P] (1 / 512) ex_A1
     = Inr \<lparr>x = 3 / 1024, y = 0, z = 4, rgb = 0x708090, w = 1\<rparr>"
  using inside_cloud_A1 inside_contour_A1 inside_blend_A1
  by (simp add: fix_color_def at_index_def)

lemma inside_fix_colors:
  "fix_colors flann [ex_C1] [ex_P] (1 / 512) [0, 1]
      [\<lparr>x = 0, y = 0, z = 2, rgb = 0x102030, w = 1\<rparr>, ex_A1]
     = Inr [\<lparr>x = 0, y = 0, z = 2, rgb = 0x102030, w = 1\<rparr>,
            \<lparr>x = 3 / 1024, y = 0, z = 4, rgb = 0x708090, w = 1\<rparr>]"
  using inside_fix_A1
  by (simp add: at_index_def fix_color_blended)

lemma inside_merge_point:
  "merge_point flann (map xy_of [ex_A0, ex_A1]) [ex_C1] [ex_P] max_dist (1 / 512) ex_P [ex_A0, ex_A1]
     = Inr (Inside, [\<lparr>x = 0, y = 0, z = 2, rgb = 0x102030, w = 1\<rparr>,
                     \<lparr>x = 3 / 1024, y = 0, z = 4, rgb = 0x708090, w = 1\<rparr>])"
  using inside_radius inside_overlap inside_fix_colors
  by (simp add: merge_point_def insert_or_update_def)

lemma inside_merge_cloud:
  "merge_cloud flann [ex_C1] max_dist [ex_P] [ex_A0, ex_A1]
     = Inr ([Inside], [\<lparr>x = 0, y = 0, z = 2, rgb = 0x102030, w = 1\<rparr>,
                       \<lparr>x = 3 / 1024, y = 0, z = 4, rgb = 0x708090, w = 1\<rparr>])"
proof -
  have r: "reset_w [ex_A0, ex_A1] = [ex_A0, ex_A1]" by (simp add: reset_w_def)
  show ?thesis
    unfolding merge_cloud_def Let_def inside_mcd r
    by (simp only: merge_loop.simps inside_merge_point sum.case prod.case)
qed

text \<open>A cloud point on the border of the accumulator.\<close>

lemma border_radius:
  "radiusSearch flann (map xy_of [ex_A0]) (xy_of ex_Q) (fmul 2 max_dist) 10 = [(0, 25 / 1048576)]"
  using cov25
  by (simp add: flann_def radius_query_def indexed_dists_def xy_of_def sqr_dist_def)

lemma border_radius1:
  "radiusSearch flann (map xy_of [ex_A0]) (xy_of ex_Q) (fmul 2 max_dist) 1 = [(0, 25 / 1048576)]"
  using cov25
  by (simp add: flann_def radius_query_def indexed_dists_def xy_of_def sqr_dist_def)

lemma border_contour_Q: "nearestKSearch flann [ex_C0] (xy_of ex_Q) 1 = [(0, 25 / 1048576)]"
  by (simp add: flann_def nearest_query_def indexed_dists_def xy_of_def sqr_dist_def)

lemma border_contour_B0: "nearestKSearch flann [ex_C0] (xy_of ex_A0) 1 = [(0, 0)]"
  by (simp add: flann_def nearest_query_def indexed_dists_def xy_of_def sqr_dist_def)

lemma border_cloud_B0: "nearestKSearch flann (map xy_of [ex_Q]) (xy_of ex_A0) 1 = [(0, 25 / 1048576)]"
  by (simp add: flann_def nearest_query_def indexed_dists_def xy_of_def sqr_dist_def)

lemma border_mcd:
  "max_contour_dist_loop flann (map xy_of [ex_A0]) [ex_C0] max_dist [ex_Q] 0 = 5 / 1024"
  using border_radius1 border_contour_Q
  by (simp add: fsqrt_def)

lemma border_blend_Q: "blend (5 / 1024) (25 / 1048576) 0x102030 0x708090 = Inr 0x102030"
  by (subst blend_alpha_zero)
     (simp_all add: fsqrt_def red_def green_def blue_def pack_rgb_def)

lemma border_blend_B0: "blend (5 / 1024) 0 0x102030 0x708090 = Inr 0x708090"
  by (subst blend_alpha_one)
     (simp_all add: fsub_def fdiv_def red_def green_def blue_def pack_rgb_def)

lemma border_insert:
  "insert_or_update flann [ex_C0] max_dist (5 / 1024) ex_Q [(0, 25 / 1048576)] [ex_A0]
     = Inr (Border, [ex_A0, \<lparr>x = 5 / 1024, y = 0, z = 2, rgb = 0x102030, w = 1\<rparr>])"
  using out25 border_contour_Q border_blend_Q
  by (simp add: insert_or_update_def merge_overlap_def at_index_def blend_color_def
        fadd_def fdiv_def)

lemma border_fix_colors:
  "fix_colors flann [ex_C0] [ex_Q] (5 / 1024) [0]
      [ex_A0, \<lparr>x = 5 / 1024, y = 0, z = 2, rgb = 0x102030, w = 1\<rparr>]
     = Inr [\<lparr>x = 0, y = 0, z = 0, rgb = 0x708090, w = 1\<rparr>,
            \<lparr>x = 5 / 1024, y = 0, z = 2, rgb = 0x102030, w = 1\<rparr>]"
  using border_cloud_B0 border_contour_B0 border_blend_B0
  by (simp add: fix_color_def at_index_def)

lemma border_merge_point:
  "merge_point flann (map xy_of [ex_A0]) [ex_C0] [ex_Q] max_dist (5 / 1024) ex_Q [ex_A0]
     = Inr (Border, [\<lparr>x = 0, y = 0, z = 0, rgb = 0x708090, w = 1\<rparr>,
                     \<lparr>x = 5 / 1024, y = 0, z = 2, rgb = 0x102030, w = 1\<rparr>])"
  using border_radius border_insert border_fix_colors
  by (simp add: merge_point_def)

lemma border_merge_cloud:
  "merge_cloud flann [ex_C0] max_dist [ex_Q] [ex_A0]
     = Inr ([Border], [\<lparr>x = 0, y = 0, z = 0, rgb = 0x708090, w = 1\<rparr>,
                       \<lparr>x = 5 / 1024, y = 0, z = 2, rgb = 0x102030, w = 1\<rparr>])"
proof -
  have r: "reset_w [ex_A0] = [ex_A0]" by (simp add: reset_w_def)
  show ?thesis
    unfolding merge_cloud_def Let_def border_mcd r
    by (simp only: merge_loop.simps border_merge_point sum.case prod.case)
qed

text \<open>A cloud point far from the accumulator.\<close>

lemma far_radius:
  "radiusSearch flann (map xy_of [ex_A0]) (xy_of ex_F) (fmul 2 max_dist) K = []"
  using cov_far
  by (simp add: flann_def radius_query_def indexed_dists_def xy_of_def sqr_dist_def)

lemma far_distance: "fmul 2 max_dist < sqrt (sqr_dist (xy_of ex_F) (xy_of ex_A0))"
  using coverage_radius_bounds(2) by (simp add: xy_of_def sqr_dist_def)

text \<open>A cloud of two points, the first blended with weight 1/2.\<close>

lemma half_radius:
  "radiusSearch flann (map xy_of [ex_A0, ex_A1]) (xy_of ex_H1) (fmul 2 max_dist) 10
     = [(0, 1 / 1048576), (1, 1 / 262144)]"
  using cov1 cov4
  by (simp add: flann_def radius_query_def indexed_dists_def xy_of_def sqr_dist_def)

lemma half_radius1:
  "radiusSearch flann (map xy_of [ex_A0, ex_A1]) (xy_of ex_H1) (fmul 2 max_dist) 1
     = [(0, 1 / 1048576)]"
  using cov1 cov4
  by (simp add: flann_def radius_query_def indexed_dists_def xy_of_def sqr_dist_def)

lemma half_radius2:
  "radiusSearch flann (map xy_of [ex_A0, ex_A1]) (xy_of ex_H2) (fmul 2 max_dist) 1
     = [(0, 1 / 1048576)]"
  using cov1
  by (simp add: flann_def radius_query_def indexed_dists_def xy_of_def sqr_dist_def)

lemma half_contour_H1: "nearestKSearch flann [ex_C1] (xy_of ex_H1) 1 = [(0, 1 / 262144)]"
  by (simp add: flann_def nearest_query_def indexed_dists_def xy_of_def sqr_dist_def)

lemma half_contour_H2: "nearestKSearch flann [ex_C1] (xy_of ex_H2) 1 = [(0, 1 / 65536)]"
  by (simp add: flann_def nearest_query_def indexed_dists_def xy_of_def sqr_dist_def)

lemma half_cloud_A1:
  "nearestKSearch flann (map xy_of [ex_H1, ex_H2]) (xy_of ex_A1) 1 = [(0, 1 / 262144)]"
  by (simp add: flann_def nearest_query_def indexed_dists_def xy_of_def sqr_dist_def)

lemma half_mcd:
  "max_contour_dist_loop flann (map xy_of [ex_A0, ex_A1]) [ex_C1] max_dist [ex_H1, ex_H2] 0
     = 1 / 256"
  using half_radius1 half_radius2 half_contour_H1 half_contour_H2
  by (simp add: fsqrt_def)

lemma half_alpha: "fdiv (fsub (1 / 256) (fsqrt (1 / 262144))) (1 / 256) = 1 / 2"
  by (simp add: fsqrt_def fsub_def fdiv_def)

lemma half_channels:
  "blend_channel (1 / 2) 16 48 = Inr 32"
  "blend_channel (1 / 2) 32 64 = Inr 48"
  "blend_channel (1 / 2) 48 80 = Inr 64"
  by (simp_all add: blend_channel_def fsub_def fmul_def fadd_def to_uint8_def)

lemma half_blend_H1: "blend (1 / 256) (1 / 262144) 0x102030 0x304050 = Inr 0x203040"
proof -
  have c: "red (0x102030 :: 32 word) = 16" "green (0x102030 :: 32 word) = 32"
    "blue (0x102030 :: 32 word) = 48" "red (0x304050 :: 32 word) = 48"
    "green (0x304050 :: 32 word) = 64" "blue (0x304050 :: 32 word) = 80"
    by (simp_all add: red_def green_def blue_def)
  have p: "pack_rgb 32 48 64 = 0x203040" by (simp add: pack_rgb_def)
  have "blend (1 / 256) (1 / 262144) 0x102030 0x304050 = Inr (pack_rgb 32 48 64)"
    unfolding blend_def Let_def half_alpha c half_channels by simp
  then show ?thesis by (simp only: p)
qed

lemma half_blend_A1: "blend (1 / 256) 0 0x405060 0x304050 = Inr 0x304050"
  by (subst blend_alpha_one)
     (simp_all add: fsub_def fdiv_def red_def green_def blue_def pack_rgb_def)

lemma half_overlap:
  "merge_overlap flann [ex_C1] max_dist (1 / 256) ex_H1 [(0, 1 / 1048576), (1, 1 / 262144)]
      [ex_A0, ex_A1]
     = Inr (Inside, [\<lparr>x = 0, y = 0, z = 2, rgb = 0x203040, w = 1\<rparr>, ex_A1])"
  using in1 half_contour_H1 inside_filter_z half_blend_H1
  by (simp add: merge_overlap_def at_index_def blend_color_def)

lemma half_fix_A1:
  "fix_color flann [ex_C1] [ex_H1, ex_H2] (1 / 256) ex_A1
     = Inr \<lparr>x = 3 / 1024, y = 0, z = 4, rgb = 0x304050, w = 1\<rparr>"
  using half_cloud_A1 inside_contour_A1 half_blend_A1
  by (simp add: fix_color_def at_index_def)

lemma half_fix_colors:
  "fix_colors flann [ex_C1] [ex_H1, ex_H2] (1 / 256) [0, 1]
      [\<lparr>x = 0, y = 0, z = 2, rgb = 0x203040, w = 1\<rparr>, ex_A1]
     = Inr [\<lparr>x = 0, y = 0, z = 2, rgb = 0x203040, w = 1\<rparr>,
            \<lparr>x = 3 / 1024, y = 0, z = 4, rgb = 0x304050, w = 1\<rparr>]"
  using half_fix_A1
  by (simp add: at_index_def fix_color_blended)

lemma half_merge_point:
  "merge_point flann (map xy_of [ex_A0, ex_A1]) [ex_C1] [ex_H1, ex_H2] max_dist (1 / 256)
      ex_H1 [ex_A0, ex_A1]
     = Inr (Inside, [\<lparr>x = 0, y = 0, z = 2, rgb = 0x203040, w = 1\<rparr>,
                     \<lparr>x = 3 / 1024, y = 0, z = 4, rgb = 0x304050, w = 1\<rparr>])"
  using half_radius half_overlap half_fix_colors
  by (simp add: merge_point_def insert_or_update_def)

text \<open>A cloud point far from an accumulator point whose flag is set.\<close>

lemma flagged_radius:
  "radiusSearch flann (map xy_of [ex_A0w]) (xy_of ex_F) (fmul 2 max_dist) K = []"
  using cov_far
  by (simp add: flann_def radius_query_def indexed_dists_def xy_of_def sqr_dist_def)

lemma flagged_distance: "fmul 2 max_dist < sqrt (sqr_dist (xy_of ex_F) (xy_of ex_A0w))"
  using coverage_radius_bounds(2) by (simp add: xy_of_def sqr_dist_def)

text \<open>No block file, and a poses file that cannot be opened.\<close>

lemma wait_free: "wait_unblocked (sconst False) = Some ()"
  by (subst wait_unblocked.simps) simp

lemma readPoses_missing:
  "readPoses \<lparr>block_exists = sconst False, graph_file = None, clouds_dir = dir,
      lexical_cast = cast, indeterminate = u\<rparr> = Some (Inr (True, []))"
  by (simp add: readPoses_def wait_free)

lemma readPoses_bad_number:
  "readPoses \<lparr>block_exists = sconst False, graph_file = Some [''0,c0,0,0,0,abc''],
      clouds_dir = dir, lexical_cast = (\<lambda>value. None), indeterminate = u\<rparr>
     = Some (Inl BadLexicalCast)"
  by (simp add: readPoses_def wait_free)

section \<open>The claims\<close>

subsection \<open>C1: a poses file that cannot be read\<close>

text \<open>
  C1 says that a missing or unreadable poses file makes the load fail and aborts the
  run before any output. The code does not do so. With no block file and a poses file
  that cannot be opened, \<^verbatim>\<open>readPoses\<close> returns \<^verbatim>\<open>true\<close> with no pose, and
  \<^verbatim>\<open>build3D\<close>, whatever the PCL operations are, does not take the \<^verbatim>\<open>return\<close> of line 98:
  it filters the empty accumulator and reaches \<^verbatim>\<open>savePCDFile\<close> with the result and a count
  of 0 points. (A field that is not a number does end the run, by the exception of
  \<^verbatim>\<open>lexical_cast\<close>: see \<open>readPoses_bad_number\<close>.)
\<close>

theorem missing_poses_file_reaches_save:
  "readPoses \<lparr>block_exists = sconst False, graph_file = None, clouds_dir = dir,
      lexical_cast = cast, indeterminate = u\<rparr> = Some (Inr (True, []))
   \<and> build3D pcl \<lparr>block_exists = sconst False, graph_file = None, clouds_dir = dir,
      lexical_cast = cast, indeterminate = u\<rparr>
     = Some (Inr (Saved (statisticalOutlierRemoval pcl 40 2
                (radiusOutlierRemoval pcl (4 / 100) 50
                   (voxelGrid pcl voxel_size voxel_size voxel_size []))) 0))"
  by (simp add: build3D_def readPoses_missing finish_def)

subsection \<open>C2: what one cloud point changes\<close>

text \<open>
  C2, as amended. Processing one cloud point either appends exactly one point to the
  accumulator (no neighbour, or border) or overwrites one existing point in place and
  leaves the size as it is (inside). Every existing point keeps its \<open>x\<close> and \<open>y\<close>; it
  keeps its \<open>z\<close> unless it is the primary match of an inside point; and it is left
  exactly as it was unless it is among the neighbours found. The fix-up of the same
  iteration may change the colour and the flag of several of those neighbours.
\<close>

theorem point_mutations:
  assumes "merge_point kd acc_xy contour cloud md mcd cp acc = Inr (a, acc')"
    and "radiusSearch kd acc_xy (xy_of cp) (fmul 2 md) 10 = res"
  shows "length acc' = (if a = Inside then length acc else Suc (length acc))
       \<and> (\<forall>i<length acc.
            x (acc' ! i) = x (acc ! i) \<and> y (acc' ! i) = y (acc ! i)
          \<and> (\<not> (a = Inside \<and> i = primary_match res) \<longrightarrow> z (acc' ! i) = z (acc ! i))
          \<and> (i \<notin> set (map fst res) \<longrightarrow> acc' ! i = acc ! i))"
proof -
  from assms obtain acc1 where
    iu: "insert_or_update kd contour md mcd cp res acc = Inr (a, acc1)" and
    fc: "fix_colors kd contour cloud mcd (map fst res) acc1 = Inr acc'"
    by (rule merge_point_cases)
  note len = fix_colors_length[OF fc]
  from insert_or_update_cases[OF iu]
  consider (app) "a \<noteq> Inside" "\<exists>p. acc1 = acc @ [p]"
    | (upd) "a = Inside" "res \<noteq> []" "primary_match res < length acc"
        "\<exists>pz prgb. acc1 = acc[primary_match res :=
             (acc ! primary_match res)\<lparr>z := pz, rgb := prgb, w := 1\<rparr>]"
    by (elim disjE) auto
  then show ?thesis
  proof cases
    case app
    then obtain p where acc1: "acc1 = acc @ [p]" by blast
    have "\<forall>i<length acc. x (acc' ! i) = x (acc ! i) \<and> y (acc' ! i) = y (acc ! i)
          \<and> z (acc' ! i) = z (acc ! i) \<and> (i \<notin> set (map fst res) \<longrightarrow> acc' ! i = acc ! i)"
    proof (intro allI impI)
      fix i assume i: "i < length acc"
      then have i1: "i < length acc1" and eq: "acc1 ! i = acc ! i"
        by (simp_all add: acc1 nth_append)
      show "x (acc' ! i) = x (acc ! i) \<and> y (acc' ! i) = y (acc ! i)
          \<and> z (acc' ! i) = z (acc ! i) \<and> (i \<notin> set (map fst res) \<longrightarrow> acc' ! i = acc ! i)"
        using fix_colors_xyz[OF fc i1] fix_colors_untouched[OF fc i1] eq by auto
    qed
    then show ?thesis using app(1) len acc1 by simp
  next
    case upd
    then obtain pz prgb where
      acc1': "acc1 = acc[primary_match res := (acc ! primary_match res)\<lparr>z := pz, rgb := prgb, w := 1\<rparr>]"
      by blast
    define q where "q = (acc ! primary_match res)\<lparr>z := pz, rgb := prgb, w := 1\<rparr>"
    have acc1: "acc1 = acc[primary_match res := q]"
      and qx: "x q = x (acc ! primary_match res)" and qy: "y q = y (acc ! primary_match res)"
      using acc1' by (simp_all add: q_def)
    have "\<forall>i<length acc. x (acc' ! i) = x (acc ! i) \<and> y (acc' ! i) = y (acc ! i)
          \<and> (i \<noteq> primary_match res \<longrightarrow> z (acc' ! i) = z (acc ! i))
          \<and> (i \<notin> set (map fst res) \<longrightarrow> acc' ! i = acc ! i)"
    proof (intro allI impI)
      fix i assume i: "i < length acc"
      then have i1: "i < length acc1" by (simp add: acc1)
      have pm: "primary_match res \<in> set (map fst res)" by (rule primary_match_mem[OF upd(2)])
      show "x (acc' ! i) = x (acc ! i) \<and> y (acc' ! i) = y (acc ! i)
          \<and> (i \<noteq> primary_match res \<longrightarrow> z (acc' ! i) = z (acc ! i))
          \<and> (i \<notin> set (map fst res) \<longrightarrow> acc' ! i = acc ! i)"
      proof (cases "i = primary_match res")
        case True
        then have "acc1 ! i = q" using i by (simp add: acc1)
        then show ?thesis
          using fix_colors_xyz[OF fc i1] True qx qy pm by auto
      next
        case False
        then have "acc1 ! i = acc ! i" by (simp add: acc1)
        then show ?thesis
          using fix_colors_xyz[OF fc i1] fix_colors_untouched[OF fc i1] False by auto
      qed
    qed
    then show ?thesis using upd(1) len acc1 by simp
  qed
qed

text \<open>
  C2, the amended statement on the scene with a cloud point inside the accumulator: the
  size stays 2 and the second point keeps its \<open>z\<close>.
\<close>

theorem point_mutations_witness:
  "merge_point flann (map xy_of [ex_A0, ex_A1]) [ex_C1] [ex_P] max_dist (1 / 512) ex_P [ex_A0, ex_A1]
     = Inr (Inside, [\<lparr>x = 0, y = 0, z = 2, rgb = 0x102030, w = 1\<rparr>,
                     \<lparr>x = 3 / 1024, y = 0, z = 4, rgb = 0x708090, w = 1\<rparr>])
   \<and> radiusSearch flann (map xy_of [ex_A0, ex_A1]) (xy_of ex_P) (fmul 2 max_dist) 10
     = [(0, 1 / 1048576), (1, 1 / 262144)]
   \<and> length [\<lparr>x = 0, y = 0, z = 2, rgb = 0x102030 :: 32 word, w = 1 :: real\<rparr>,
              \<lparr>x = 3 / 1024, y = 0, z = 4, rgb = 0x708090, w = 1\<rparr>] = length [ex_A0, ex_A1]
   \<and> primary_match [(0, 1 / 1048576), (1, 1 / 262144)] = 0
   \<and> z \<lparr>x = 3 / 1024, y = 0, z = 4, rgb = 0x708090 :: 32 word, w = 1 :: real\<rparr> = z ex_A1"
  using point_mutations[OF inside_merge_point inside_radius] inside_merge_point inside_radius
  by (simp add: primary_match_def)

text \<open>
  C2 as stated fails. One cloud point between two accumulator points is merged: the
  closest accumulator point is overwritten (\<open>z\<close> and flag), and the fix-up gives the other
  one the colour of the cloud point and sets its flag. Two existing points have changed.
\<close>

theorem one_point_mutates_two:
  "merge_cloud flann [\<lparr>x = 3 / 1024, y = 0\<rparr>] max_dist
      [\<lparr>x = 1 / 1024, y = 0, z = 0, rgb = 0x708090\<rparr>]
      [\<lparr>x = 0, y = 0, z = 0, rgb = 0x102030, w = 0\<rparr>,
       \<lparr>x = 3 / 1024, y = 0, z = 4, rgb = 0x405060, w = 0\<rparr>]
     = Inr ([Inside],
         [\<lparr>x = 0, y = 0, z = 2, rgb = 0x102030, w = 1\<rparr>,
          \<lparr>x = 3 / 1024, y = 0, z = 4, rgb = 0x708090, w = 1\<rparr>])
   \<and> \<lparr>x = 0, y = 0, z = 2, rgb = 0x102030, w = 1\<rparr>
       \<noteq> \<lparr>x = 0, y = 0, z = 0, rgb = 0x102030 :: 32 word, w = 0 :: real\<rparr>
   \<and> \<lparr>x = 3 / 1024, y = 0, z = 4, rgb = 0x708090, w = 1\<rparr>
       \<noteq> \<lparr>x = 3 / 1024, y = 0, z = 4, rgb = 0x405060 :: 32 word, w = 0 :: real\<rparr>"
  using inside_merge_cloud by simp

subsection \<open>C3: the points the fix-up blends\<close>

text \<open>
  C3, as amended. After a cloud point is merged, an existing accumulator point is
  re-blended by the fix-up exactly when it is among the neighbours found for the cloud
  point, its flag is not 1 when the fix-up reaches it, and both the cloud index and the
  contour index return a point for it: its colour becomes the blend of its colour with
  the colour of the nearest point of the incoming cloud, its flag becomes 1 and nothing
  else of it changes. The primary match of an inside point has just been overwritten
  with flag 1 and is not re-blended: it keeps the colour blended for the cloud point.
  The primary match of a border point is treated like any other neighbour. Every other
  existing point is left as it was.
\<close>

theorem fix_up_targets:
  assumes "merge_point kd acc_xy contour cloud md mcd cp acc = Inr (a, acc')"
    and "radiusSearch kd acc_xy (xy_of cp) (fmul 2 md) 10 = res" and "i < length acc"
  shows "(a = Inside \<and> i = primary_match res \<longrightarrow>
            w (acc' ! i) = 1
          \<and> blend_color kd contour mcd (xy_of cp) (rgb (acc ! i)) (rgb cp) = Inr (rgb (acc' ! i)))
       \<and> (\<not> (a = Inside \<and> i = primary_match res) \<longrightarrow>
            (if i \<in> set (map fst res) \<and> w (acc ! i) \<noteq> 1
             then (case nearestKSearch kd (map xy_of cloud) (xy_of (acc ! i)) 1 of
                     [] \<Rightarrow> acc' ! i = acc ! i
                   | (cloud_idx, cloud_squared_dist) # _ \<Rightarrow>
                       (case nearestKSearch kd contour (xy_of (acc ! i)) 1 of
                          [] \<Rightarrow> acc' ! i = acc ! i
                        | (contour_idx, contour_squared_dist) # _ \<Rightarrow>
                            cloud_idx < length cloud
                          \<and> (\<exists>c. blend mcd contour_squared_dist (rgb (acc ! i))
                                     (rgb (cloud ! cloud_idx)) = Inr c
                                 \<and> acc' ! i = (acc ! i)\<lparr>rgb := c, w := 1\<rparr>)))
             else acc' ! i = acc ! i))"
proof -
  from assms(1,2) obtain acc1 where
    iu: "insert_or_update kd contour md mcd cp res acc = Inr (a, acc1)" and
    fc: "fix_colors kd contour cloud mcd (map fst res) acc1 = Inr acc'"
    by (rule merge_point_cases)
  show ?thesis
  proof (cases "a = Inside \<and> i = primary_match res")
    case True
    with insert_or_update_cases[OF iu] obtain pz prgb where
      bc: "blend_color kd contour mcd (xy_of cp) (rgb (acc ! i)) (rgb cp) = Inr prgb" and
      acc1: "acc1 = acc[i := (acc ! i)\<lparr>z := pz, rgb := prgb, w := 1\<rparr>]"
      by auto
    have i1: "i < length acc1" using assms(3) by (simp add: acc1)
    have at1: "acc1 ! i = (acc ! i)\<lparr>z := pz, rgb := prgb, w := 1\<rparr>"
      using assms(3) by (simp add: acc1)
    then have "w (acc1 ! i) = 1" by simp
    then have "acc' ! i = acc1 ! i" using fix_colors_untouched[OF fc i1] by simp
    with at1 bc True show ?thesis by simp
  next
    case False
    have eq: "acc1 ! i = acc ! i" and i1: "i < length acc1"
      using insert_or_update_cases[OF iu] False assms(3) by (auto simp: nth_append)
    show ?thesis
    proof (cases "i \<in> set (map fst res) \<and> w (acc ! i) \<noteq> 1")
      case True
      then have "fix_color kd contour cloud mcd (acc ! i) = Inr (acc' ! i)"
        using fix_colors_nth[OF fc i1] eq by simp
      from fix_color_explicit[OF this] True
      have "case nearestKSearch kd (map xy_of cloud) (xy_of (acc ! i)) 1 of
              [] \<Rightarrow> acc' ! i = acc ! i
            | (cloud_idx, cloud_squared_dist) # _ \<Rightarrow>
                (case nearestKSearch kd contour (xy_of (acc ! i)) 1 of
                   [] \<Rightarrow> acc' ! i = acc ! i
                 | (contour_idx, contour_squared_dist) # _ \<Rightarrow>
                     cloud_idx < length cloud
                   \<and> (\<exists>c. blend mcd contour_squared_dist (rgb (acc ! i))
                              (rgb (cloud ! cloud_idx)) = Inr c
                          \<and> acc' ! i = (acc ! i)\<lparr>rgb := c, w := 1\<rparr>))"
        by simp
      with True False show ?thesis by (simp only: if_True simp_thms)
    next
      case no: False
      then have "acc' ! i = acc1 ! i" using fix_colors_untouched[OF fc i1] eq by auto
      then have "acc' ! i = acc ! i" using eq by simp
      with no False show ?thesis by (simp only: if_False simp_thms)
    qed
  qed
qed

text \<open>
  C3, the amended statement on the scene with a cloud point inside the accumulator, for
  the second accumulator point: it is a neighbour, not the primary match, its flag is 0,
  and it takes the colour of the cloud point.
\<close>

theorem fix_up_targets_witness:
  "merge_point flann (map xy_of [ex_A0, ex_A1]) [ex_C1] [ex_P] max_dist (1 / 512) ex_P [ex_A0, ex_A1]
     = Inr (Inside, [\<lparr>x = 0, y = 0, z = 2, rgb = 0x102030, w = 1\<rparr>,
                     \<lparr>x = 3 / 1024, y = 0, z = 4, rgb = 0x708090, w = 1\<rparr>])
   \<and> radiusSearch flann (map xy_of [ex_A0, ex_A1]) (xy_of ex_P) (fmul 2 max_dist) 10
     = [(0, 1 / 1048576), (1, 1 / 262144)]
   \<and> (1 :: nat) < length [ex_A0, ex_A1]
   \<and> primary_match [(0, 1 / 1048576), (1, 1 / 262144)] = 0
   \<and> w ex_A1 \<noteq> 1
   \<and> nearestKSearch flann (map xy_of [ex_P]) (xy_of ex_A1) 1 = [(0, 1 / 262144)]
   \<and> nearestKSearch flann [ex_C1] (xy_of ex_A1) 1 = [(0, 0)]
   \<and> blend (1 / 512) 0 (rgb ex_A1) (rgb ([ex_P] ! 0)) = Inr 0x708090
   \<and> \<lparr>x = 3 / 1024, y = 0, z = 4, rgb = 0x708090, w = 1\<rparr> = ex_A1\<lparr>rgb := 0x708090, w := 1\<rparr>"
  using fix_up_targets[OF inside_merge_point inside_radius, of 1]
    inside_merge_point inside_radius inside_cloud_A1 inside_contour_A1 inside_blend_A1
  by (simp add: primary_match_def)

text \<open>
  C3 as stated fails on a border point. The only neighbour of the cloud point is its
  primary match; the border arm appends the cloud point and leaves the match with flag
  0, and the fix-up then re-blends that primary match: its colour changes from
  \<open>0x102030\<close> to \<open>0x708090\<close>.
\<close>

theorem border_primary_reblended:
  "radiusSearch flann (map xy_of [\<lparr>x = 0, y = 0, z = 0, rgb = 0x102030, w = 0\<rparr>])
      (xy_of \<lparr>x = 5 / 1024, y = 0, z = 4, rgb = 0x708090\<rparr>) (fmul 2 max_dist) 10
     = [(0, 25 / 1048576)]
   \<and> primary_match [(0, 25 / 1048576)] = 0
   \<and> insert_or_update flann [\<lparr>x = 0, y = 0\<rparr>] max_dist (5 / 1024)
        \<lparr>x = 5 / 1024, y = 0, z = 4, rgb = 0x708090\<rparr> [(0, 25 / 1048576)]
        [\<lparr>x = 0, y = 0, z = 0, rgb = 0x102030, w = 0\<rparr>]
     = Inr (Border, [\<lparr>x = 0, y = 0, z = 0, rgb = 0x102030, w = 0\<rparr>,
                     \<lparr>x = 5 / 1024, y = 0, z = 2, rgb = 0x102030, w = 1\<rparr>])
   \<and> fix_colors flann [\<lparr>x = 0, y = 0\<rparr>] [\<lparr>x = 5 / 1024, y = 0, z = 4, rgb = 0x708090\<rparr>]
        (5 / 1024) [0]
        [\<lparr>x = 0, y = 0, z = 0, rgb = 0x102030, w = 0\<rparr>,
         \<lparr>x = 5 / 1024, y = 0, z = 2, rgb = 0x102030, w = 1\<rparr>]
     = Inr [\<lparr>x = 0, y = 0, z = 0, rgb = 0x708090, w = 1\<rparr>,
            \<lparr>x = 5 / 1024, y = 0, z = 2, rgb = 0x102030, w = 1\<rparr>]
   \<and> merge_cloud flann [\<lparr>x = 0, y = 0\<rparr>] max_dist
        [\<lparr>x = 5 / 1024, y = 0, z = 4, rgb = 0x708090\<rparr>]
        [\<lparr>x = 0, y = 0, z = 0, rgb = 0x102030, w = 0\<rparr>]
     = Inr ([Border], [\<lparr>x = 0, y = 0, z = 0, rgb = 0x708090, w = 1\<rparr>,
                       \<lparr>x = 5 / 1024, y = 0, z = 2, rgb = 0x102030, w = 1\<rparr>])
   \<and> (0x708090 :: 32 word) \<noteq> 0x102030"
  using border_radius border_insert border_fix_colors border_merge_cloud
  by (simp add: primary_match_def)

subsection \<open>C4: border points and inside points\<close>

text \<open>
  C4, as amended. A cloud point with at least one neighbour is a border point exactly
  when no neighbour has a squared distance below \<open>max_dist * max_dist\<close>. Its colour
  \<open>prgb\<close> is the blend of the colour of the primary match with its own, weighted by
  the distance to the contour (its own colour when the contour index returns nothing),
  and its \<open>z\<close> is the running average over the neighbours. A border point is appended
  with its own \<open>x\<close> and \<open>y\<close>, that \<open>z\<close>, that colour and flag 1, and every existing
  point keeps \<open>x\<close>, \<open>y\<close> and \<open>z\<close>. Any other point keeps the size of the accumulator
  and overwrites \<open>z\<close>, colour and flag of the primary match, which is a closest
  neighbour; every other existing point keeps \<open>x\<close>, \<open>y\<close> and \<open>z\<close>. In both cases a
  point that is not among the neighbours is left as it was, while the fix-up of the
  same iteration may change colour and flag of the other neighbours.
\<close>

theorem border_or_update:
  assumes "merge_point kd acc_xy contour cloud md mcd cp acc = Inr (a, acc')"
    and "radiusSearch kd acc_xy (xy_of cp) (fmul 2 md) 10 = res" and "res \<noteq> []"
  shows "(a = Border \<longleftrightarrow> (\<forall>d\<in>set (map snd res). \<not> d < fmul md md))
       \<and> (\<exists>prgb.
            (case nearestKSearch kd contour (xy_of cp) 1 of
               [] \<Rightarrow> prgb = rgb cp
             | (contour_idx, contour_squared_dist) # _ \<Rightarrow>
                 blend mcd contour_squared_dist (rgb (acc ! primary_match res)) (rgb cp) = Inr prgb)
          \<and> (a = Border \<longrightarrow>
                length acc' = Suc (length acc)
              \<and> acc' ! length acc
                  = \<lparr>x = x cp, y = y cp,
                     z = foldl (\<lambda>zk i. fdiv (fadd zk (z (acc ! i))) 2) (z cp) (map fst res),
                     rgb = prgb, w = 1\<rparr>
              \<and> (\<forall>i<length acc.
                     x (acc' ! i) = x (acc ! i) \<and> y (acc' ! i) = y (acc ! i)
                   \<and> z (acc' ! i) = z (acc ! i)
                   \<and> (i \<notin> set (map fst res) \<longrightarrow> acc' ! i = acc ! i)))
          \<and> (a \<noteq> Border \<longrightarrow>
                a = Inside \<and> length acc' = length acc \<and> primary_match res < length acc
              \<and> (\<forall>d\<in>set (map snd res). map snd res ! min_element (map snd res) \<le> d)
              \<and> acc' ! primary_match res
                  = (acc ! primary_match res)
                      \<lparr>z := foldl (\<lambda>zk i. fdiv (fadd zk (z (acc ! i))) 2) (z cp) (map fst res),
                       rgb := prgb, w := 1\<rparr>
              \<and> (\<forall>i<length acc. i \<noteq> primary_match res \<longrightarrow>
                     x (acc' ! i) = x (acc ! i) \<and> y (acc' ! i) = y (acc ! i)
                   \<and> z (acc' ! i) = z (acc ! i)
                   \<and> (i \<notin> set (map fst res) \<longrightarrow> acc' ! i = acc ! i))))"
proof -
  let ?pz = "foldl (\<lambda>zk i. fdiv (fadd zk (z (acc ! i))) 2) (z cp) (map fst res)"
  from assms obtain pz prgb acc1 where
    fz: "filter_z acc (map fst res) (z cp) = Inr pz" and
    pm: "primary_match res < length acc" and
    bc: "blend_color kd contour mcd (xy_of cp) (rgb (acc ! primary_match res)) (rgb cp) = Inr prgb" and
    arms: "is_border md (map snd res) \<and> a = Border
        \<and> acc1 = acc @ [\<lparr>x = x cp, y = y cp, z = pz, rgb = prgb, w = 1\<rparr>]
     \<or> \<not> is_border md (map snd res) \<and> a = Inside
        \<and> acc1 = acc[primary_match res := (acc ! primary_match res)\<lparr>z := pz, rgb := prgb, w := 1\<rparr>]" and
    fc: "fix_colors kd contour cloud mcd (map fst res) acc1 = Inr acc'"
    by (rule merge_point_result)
  have pz: "pz = ?pz" using filter_z_Inr[OF fz] by simp
  note len = fix_colors_length[OF fc]
  have iff: "a = Border \<longleftrightarrow> (\<forall>d\<in>set (map snd res). \<not> d < fmul md md)"
    using arms by (auto simp: is_border_iff)
  have colour: "case nearestKSearch kd contour (xy_of cp) 1 of
               [] \<Rightarrow> prgb = rgb cp
             | (contour_idx, contour_squared_dist) # _ \<Rightarrow>
                 blend mcd contour_squared_dist (rgb (acc ! primary_match res)) (rgb cp) = Inr prgb"
    by (rule blend_color_explicit[OF bc])
  have border: "length acc' = Suc (length acc)
              \<and> acc' ! length acc = \<lparr>x = x cp, y = y cp, z = ?pz, rgb = prgb, w = 1\<rparr>
              \<and> (\<forall>i<length acc.
                     x (acc' ! i) = x (acc ! i) \<and> y (acc' ! i) = y (acc ! i)
                   \<and> z (acc' ! i) = z (acc ! i)
                   \<and> (i \<notin> set (map fst res) \<longrightarrow> acc' ! i = acc ! i))"
    if b: "a = Border"
  proof -
    from arms b have acc1: "acc1 = acc @ [\<lparr>x = x cp, y = y cp, z = pz, rgb = prgb, w = 1\<rparr>]"
      by auto
    have k: "length acc < length acc1" by (simp add: acc1)
    have "w (acc1 ! length acc) = 1" by (simp add: acc1)
    then have "acc' ! length acc = acc1 ! length acc"
      using fix_colors_untouched[OF fc k] by simp
    then have new: "acc' ! length acc = \<lparr>x = x cp, y = y cp, z = ?pz, rgb = prgb, w = 1\<rparr>"
      by (simp add: acc1 pz)
    have old: "x (acc' ! i) = x (acc ! i) \<and> y (acc' ! i) = y (acc ! i)
                   \<and> z (acc' ! i) = z (acc ! i)
                   \<and> (i \<notin> set (map fst res) \<longrightarrow> acc' ! i = acc ! i)"
      if i: "i < length acc" for i
    proof -
      have i1: "i < length acc1" and eq: "acc1 ! i = acc ! i"
        using i by (simp_all add: acc1 nth_append)
      show ?thesis
        using fix_colors_xyz[OF fc i1] fix_colors_untouched[OF fc i1] eq by auto
    qed
    show ?thesis using len new old by (simp add: acc1)
  qed
  have inside: "a = Inside \<and> length acc' = length acc \<and> primary_match res < length acc
              \<and> (\<forall>d\<in>set (map snd res). map snd res ! min_element (map snd res) \<le> d)
              \<and> acc' ! primary_match res
                  = (acc ! primary_match res)\<lparr>z := ?pz, rgb := prgb, w := 1\<rparr>
              \<and> (\<forall>i<length acc. i \<noteq> primary_match res \<longrightarrow>
                     x (acc' ! i) = x (acc ! i) \<and> y (acc' ! i) = y (acc ! i)
                   \<and> z (acc' ! i) = z (acc ! i)
                   \<and> (i \<notin> set (map fst res) \<longrightarrow> acc' ! i = acc ! i))"
    if nb: "a \<noteq> Border"
  proof -
    from arms nb have ins: "a = Inside" and
      acc1: "acc1 = acc[primary_match res := (acc ! primary_match res)\<lparr>z := pz, rgb := prgb, w := 1\<rparr>]"
      by auto
    have k: "primary_match res < length acc1" using pm by (simp add: acc1)
    have at1: "acc1 ! primary_match res = (acc ! primary_match res)\<lparr>z := pz, rgb := prgb, w := 1\<rparr>"
      using pm by (simp add: acc1)
    then have "w (acc1 ! primary_match res) = 1" by simp
    then have "acc' ! primary_match res = acc1 ! primary_match res"
      using fix_colors_untouched[OF fc k] by simp
    with at1 have prim: "acc' ! primary_match res
        = (acc ! primary_match res)\<lparr>z := ?pz, rgb := prgb, w := 1\<rparr>"
      by (simp add: pz)
    have closest: "\<forall>d\<in>set (map snd res). map snd res ! min_element (map snd res) \<le> d"
      using min_element_least by blast
    have old: "x (acc' ! i) = x (acc ! i) \<and> y (acc' ! i) = y (acc ! i)
                   \<and> z (acc' ! i) = z (acc ! i)
                   \<and> (i \<notin> set (map fst res) \<longrightarrow> acc' ! i = acc ! i)"
      if i: "i < length acc" and ip: "i \<noteq> primary_match res" for i
    proof -
      have i1: "i < length acc1" and eq: "acc1 ! i = acc ! i"
        using i ip by (simp_all add: acc1)
      show ?thesis
        using fix_colors_xyz[OF fc i1] fix_colors_untouched[OF fc i1] eq by auto
    qed
    show ?thesis using ins len pm prim closest old by (simp add: acc1)
  qed
  show ?thesis
    using iff colour border inside by blast
qed

text \<open>
  C4, the amended statement on the scene with a cloud of two points. The maximum contour
  distance of the cloud is 1/256 and the first cloud point is 1/512 from the contour,
  so the weight is 1/2: the colours \<open>0x102030\<close> and \<open>0x304050\<close> blend to \<open>0x203040\<close>,
  which is neither of them. The first neighbour is closer than \<open>max_dist\<close>, the update
  arm is taken, and the primary match receives \<open>z = 2\<close>, that colour and flag 1.
\<close>

theorem border_or_update_witness:
  "merge_point flann (map xy_of [ex_A0, ex_A1]) [ex_C1] [ex_H1, ex_H2] max_dist (1 / 256)
      ex_H1 [ex_A0, ex_A1]
     = Inr (Inside, [\<lparr>x = 0, y = 0, z = 2, rgb = 0x203040, w = 1\<rparr>,
                     \<lparr>x = 3 / 1024, y = 0, z = 4, rgb = 0x304050, w = 1\<rparr>])
   \<and> radiusSearch flann (map xy_of [ex_A0, ex_A1]) (xy_of ex_H1) (fmul 2 max_dist) 10
     = [(0, 1 / 1048576), (1, 1 / 262144)]
   \<and> [(0 :: nat, 1 / 1048576 :: real), (1, 1 / 262144)] \<noteq> []
   \<and> 1 / 1048576 < fmul max_dist max_dist
   \<and> primary_match [(0, 1 / 1048576), (1, 1 / 262144)] = 0
   \<and> max_contour_dist_loop flann (map xy_of [ex_A0, ex_A1]) [ex_C1] max_dist [ex_H1, ex_H2] 0
     = 1 / 256
   \<and> nearestKSearch flann [ex_C1] (xy_of ex_H1) 1 = [(0, 1 / 262144)]
   \<and> fdiv (fsub (1 / 256) (fsqrt (1 / 262144))) (1 / 256) = 1 / 2
   \<and> blend (1 / 256) (1 / 262144) (rgb ex_A0) (rgb ex_H1) = Inr 0x203040
   \<and> foldl (\<lambda>zk i. fdiv (fadd zk (z ([ex_A0, ex_A1] ! i))) 2) (z ex_H1)
        (map fst [(0 :: nat, 1 / 1048576 :: real), (1, 1 / 262144)]) = 2
   \<and> \<lparr>x = 0, y = 0, z = 2, rgb = 0x203040, w = 1\<rparr> = ex_A0\<lparr>z := 2, rgb := 0x203040, w := 1\<rparr>
   \<and> z \<lparr>x = 3 / 1024, y = 0, z = 4, rgb = 0x304050 :: 32 word, w = 1 :: real\<rparr> = z ex_A1"
  using border_or_update[OF half_merge_point half_radius]
    half_merge_point half_radius in1 half_mcd half_contour_H1 half_alpha half_blend_H1
  by (simp add: primary_match_def fadd_def fdiv_def)

text \<open>
  C4 as stated fails for a point that is not a border point: it does not overwrite the
  primary match only. On the same scene the first cloud point overwrites the first
  accumulator point, and the fix-up of the same iteration changes colour and flag of
  the second, which is a neighbour but not the primary match.
\<close>

theorem inside_point_recolours_neighbour:
  "max_contour_dist_loop flann
      (map xy_of [\<lparr>x = 0, y = 0, z = 0, rgb = 0x102030, w = 0\<rparr>,
                  \<lparr>x = 3 / 1024, y = 0, z = 4, rgb = 0x405060, w = 0\<rparr>])
      [\<lparr>x = 3 / 1024, y = 0\<rparr>] max_dist
      [\<lparr>x = 1 / 1024, y = 0, z = 0, rgb = 0x304050\<rparr>,
       \<lparr>x = - 1 / 1024, y = 0, z = 0, rgb = 0x304050\<rparr>] 0 = 1 / 256
   \<and> radiusSearch flann
      (map xy_of [\<lparr>x = 0, y = 0, z = 0, rgb = 0x102030, w = 0\<rparr>,
                  \<lparr>x = 3 / 1024, y = 0, z = 4, rgb = 0x405060, w = 0\<rparr>])
      (xy_of \<lparr>x = 1 / 1024, y = 0, z = 0, rgb = 0x304050\<rparr>) (fmul 2 max_dist) 10
     = [(0, 1 / 1048576), (1, 1 / 262144)]
   \<and> 1 / 1048576 < fmul max_dist max_dist
   \<and> primary_match [(0, 1 / 1048576), (1, 1 / 262144)] = 0
   \<and> merge_point flann
      (map xy_of [\<lparr>x = 0, y = 0, z = 0, rgb = 0x102030, w = 0\<rparr>,
                  \<lparr>x = 3 / 1024, y = 0, z = 4, rgb = 0x405060, w = 0\<rparr>])
      [\<lparr>x = 3 / 1024, y = 0\<rparr>]
      [\<lparr>x = 1 / 1024, y = 0, z = 0, rgb = 0x304050\<rparr>,
       \<lparr>x = - 1 / 1024, y = 0, z = 0, rgb = 0x304050\<rparr>]
      max_dist (1 / 256) \<lparr>x = 1 / 1024, y = 0, z = 0, rgb = 0x304050\<rparr>
      [\<lparr>x = 0, y = 0, z = 0, rgb = 0x102030, w = 0\<rparr>,
       \<lparr>x = 3 / 1024, y = 0, z = 4, rgb = 0x405060, w = 0\<rparr>]
     = Inr (Inside, [\<lparr>x = 0, y = 0, z = 2, rgb = 0x203040, w = 1\<rparr>,
                     \<lparr>x = 3 / 1024, y = 0, z = 4, rgb = 0x304050, w = 1\<rparr>])
   \<and> \<lparr>x = 3 / 1024, y = 0, z = 4, rgb = 0x304050, w = 1\<rparr>
       \<noteq> \<lparr>x = 3 / 1024, y = 0, z = 4, rgb = 0x405060 :: 32 word, w = 0 :: real\<rparr>"
  using half_mcd half_radius in1 half_merge_point
  by (simp add: primary_match_def)

subsection \<open>C5: the averaged z\<close>

text \<open>
  C5. For a cloud point with neighbours \<open>d1 .. dn\<close>, in the order the index returns
  them, the \<open>z\<close> of the point written (the appended point of a border point, the primary
  match of an inside point) is the left fold \<open>z0 = p.z\<close>, \<open>zk = (z(k-1) + dk.z) / 2\<close>,
  over the \<open>z\<close> the neighbours have in the accumulator, each sum and each quotient in
  single precision.
\<close>

theorem z_running_average:
  assumes "merge_point kd acc_xy contour cloud md mcd cp acc = Inr (a, acc')"
    and "radiusSearch kd acc_xy (xy_of cp) (fmul 2 md) 10 = res" and "res \<noteq> []"
  shows "z (acc' ! (if a = Border then length acc else primary_match res))
       = foldl (\<lambda>zk i. fdiv (fadd zk (z (acc ! i))) 2) (z cp) (map fst res)"
proof -
  from assms(1,2) obtain acc1 where
    iu: "insert_or_update kd contour md mcd cp res acc = Inr (a, acc1)" and
    fc: "fix_colors kd contour cloud mcd (map fst res) acc1 = Inr acc'"
    by (rule merge_point_cases)
  from iu assms(3) have mo: "merge_overlap kd contour md mcd cp res acc = Inr (a, acc1)"
    by (simp add: insert_or_update_nonempty)
  from mo obtain pz prgb where
    fz: "filter_z acc (map fst res) (z cp) = Inr pz" and
    pm: "primary_match res < length acc" and
    arms: "is_border md (map snd res) \<and> a = Border
        \<and> acc1 = acc @ [\<lparr>x = x cp, y = y cp, z = pz, rgb = prgb, w = 1\<rparr>]
     \<or> \<not> is_border md (map snd res) \<and> a = Inside
        \<and> acc1 = acc[primary_match res := (acc ! primary_match res)\<lparr>z := pz, rgb := prgb, w := 1\<rparr>]"
    by (rule merge_overlap_cases)
  have pz: "pz = foldl (\<lambda>zk i. fdiv (fadd zk (z (acc ! i))) 2) (z cp) (map fst res)"
    using filter_z_Inr[OF fz] by simp
  let ?k = "if a = Border then length acc else primary_match res"
  have k: "?k < length acc1" and zk: "z (acc1 ! ?k) = pz"
    using arms pm by (auto simp: nth_append)
  have "z (acc' ! ?k) = z (acc1 ! ?k)" by (rule fix_colors_xyz(3)[OF fc k])
  with zk pz show ?thesis by simp
qed

text \<open>
  C5 on the scene with a cloud point inside the accumulator: with \<open>p.z = 0\<close> and
  neighbours of \<open>z\<close> 0 and 4 the result is 2, which is not the mean 4/3 of the three
  values.
\<close>

theorem z_running_average_witness:
  "merge_point flann (map xy_of [ex_A0, ex_A1]) [ex_C1] [ex_P] max_dist (1 / 512) ex_P [ex_A0, ex_A1]
     = Inr (Inside, [\<lparr>x = 0, y = 0, z = 2, rgb = 0x102030, w = 1\<rparr>,
                     \<lparr>x = 3 / 1024, y = 0, z = 4, rgb = 0x708090, w = 1\<rparr>])
   \<and> radiusSearch flann (map xy_of [ex_A0, ex_A1]) (xy_of ex_P) (fmul 2 max_dist) 10
     = [(0, 1 / 1048576), (1, 1 / 262144)]
   \<and> [(0 :: nat, 1 / 1048576 :: real), (1, 1 / 262144)] \<noteq> []
   \<and> foldl (\<lambda>zk i. fdiv (fadd zk (z ([ex_A0, ex_A1] ! i))) 2) (z ex_P)
        (map fst [(0 :: nat, 1 / 1048576 :: real), (1, 1 / 262144)]) = 2
   \<and> (2 :: real) \<noteq> (z ex_P + z ex_A0 + z ex_A1) / 3"
  using z_running_average[OF inside_merge_point inside_radius] inside_merge_point inside_radius
  by (simp add: primary_match_def)

subsection \<open>C6: a point with no neighbour\<close>

text \<open>
  C6. A cloud point for which the radius search returns no neighbour is appended as it
  is, with its own \<open>x\<close>, \<open>y\<close>, \<open>z\<close> and colour; the accumulator grows by that one point,
  nothing else changes, and the flag of the new point is 0 (the value \<open>default_w\<close> of a
  point whose flag was never assigned).
\<close>

theorem new_point_appended:
  assumes "radiusSearch kd acc_xy (xy_of cp) (fmul 2 md) 10 = []"
  shows "merge_point kd acc_xy contour cloud md mcd cp acc
       = Inr (NoNeighbor, acc @ [\<lparr>x = x cp, y = y cp, z = z cp, rgb = rgb cp, w = 0\<rparr>])"
  using merge_point_no_neighbor[OF assms] by (simp add: new_point_def default_w_def)

text \<open>C6 on the scene with a cloud point far from the accumulator.\<close>

theorem new_point_appended_witness:
  "radiusSearch flann (map xy_of [ex_A0]) (xy_of ex_F) (fmul 2 max_dist) 10 = []
   \<and> merge_point flann (map xy_of [ex_A0]) [ex_C0] [ex_F] max_dist 0 ex_F [ex_A0]
     = Inr (NoNeighbor, [ex_A0, \<lparr>x = 1, y = 0, z = 4, rgb = 0x708090, w = 0\<rparr>])"
  using new_point_appended[OF far_radius, of "[ex_C0]" "[ex_F]" 0 "[ex_A0]"] far_radius
  by simp

subsection \<open>C7: disjoint footprints\<close>

text \<open>
  C7, as amended. If every point of the incoming cloud is farther than \<open>2 * max_dist\<close>,
  in the plane, from every point of the accumulator, and the radius search reports only
  points within its radius, then the merge of the cloud returns the accumulator, with
  every flag reset to 0, followed by the points of the cloud: the size grows by the size
  of the cloud, every existing point keeps \<open>x\<close>, \<open>y\<close>, \<open>z\<close> and colour, and every cloud
  point takes the arm without neighbour, so that no point is classified as border or
  inside. The flag of an existing point is the one thing the merge changes.
\<close>

theorem disjoint_footprints:
  assumes "radius_sound kd" and "0 \<le> md"
    and "\<forall>cp\<in>set cloud. \<forall>q\<in>set acc. fmul 2 md < sqrt (sqr_dist (xy_of cp) (xy_of q))"
  shows "merge_cloud kd contour md cloud acc
           = Inr (replicate (length cloud) NoNeighbor, reset_w acc @ map new_point cloud)
       \<and> map x (reset_w acc) = map x acc \<and> map y (reset_w acc) = map y acc
       \<and> map z (reset_w acc) = map z acc \<and> map rgb (reset_w acc) = map rgb acc
       \<and> map w (reset_w acc) = replicate (length acc) 0"
proof -
  have none: "radiusSearch kd (map xy_of acc) (xy_of cp) (fmul 2 md) K = []"
    if "cp \<in> set cloud" for cp K
    by (rule radius_sound_disjoint[OF assms(1,2)]) (use assms(3) that in auto)
  have m0: "max_contour_dist_loop kd (map xy_of acc) contour md cloud 0 = 0"
    by (rule max_contour_dist_loop_no_neighbors) (use none in blast)
  have ml: "merge_loop kd (map xy_of acc) contour cloud md 0 cloud (reset_w acc)
      = Inr (replicate (length cloud) NoNeighbor, reset_w acc @ map new_point cloud)"
    by (rule merge_loop_no_neighbors) (use none in blast)
  have "merge_cloud kd contour md cloud acc
           = Inr (replicate (length cloud) NoNeighbor, reset_w acc @ map new_point cloud)"
    using m0 ml by (simp add: merge_cloud_def Let_def)
  then show ?thesis using reset_w_frame[of acc] by simp
qed

text \<open>
  C7, the amended statement on the scene with a cloud point far from the accumulator,
  with the radius query modelled from the spec.
\<close>

theorem disjoint_footprints_witness:
  "radius_sound flann \<and> 0 \<le> max_dist
   \<and> fmul 2 max_dist < sqrt (sqr_dist (xy_of ex_F) (xy_of ex_A0))
   \<and> merge_cloud flann [ex_C0] max_dist [ex_F] [ex_A0]
     = Inr ([NoNeighbor], [ex_A0, \<lparr>x = 1, y = 0, z = 4, rgb = 0x708090, w = 0\<rparr>])
   \<and> length [ex_A0, \<lparr>x = 1, y = 0, z = 4, rgb = 0x708090 :: 32 word, w = 0 :: real\<rparr>]
     = length [ex_A0] + length [ex_F]"
  using disjoint_footprints[OF radius_sound_flann max_dist_nonneg, of "[ex_F]" "[ex_A0]" "[ex_C0]"]
    radius_sound_flann max_dist_nonneg far_distance
  by (simp add: new_point_def default_w_def reset_w_def)

text \<open>
  C7 as stated fails: the merge of a disjoint cloud does change an existing point. The
  accumulator point has flag 1, the cloud point is at distance 1 from it, and after the
  merge the flag of the accumulator point is 0 (lines 219-220).
\<close>

theorem disjoint_merge_resets_flag:
  "radius_sound flann \<and> 0 \<le> max_dist
   \<and> fmul 2 max_dist
       < sqrt (sqr_dist (xy_of \<lparr>x = 1, y = 0, z = 4, rgb = 0x708090\<rparr>)
                (xy_of \<lparr>x = 0, y = 0, z = 0, rgb = 0x102030, w = 1\<rparr>))
   \<and> merge_cloud flann [\<lparr>x = 0, y = 0\<rparr>] max_dist [\<lparr>x = 1, y = 0, z = 4, rgb = 0x708090\<rparr>]
        [\<lparr>x = 0, y = 0, z = 0, rgb = 0x102030, w = 1\<rparr>]
     = Inr ([NoNeighbor], [\<lparr>x = 0, y = 0, z = 0, rgb = 0x102030, w = 0\<rparr>,
                           \<lparr>x = 1, y = 0, z = 4, rgb = 0x708090, w = 0\<rparr>])
   \<and> \<lparr>x = 0, y = 0, z = 0, rgb = 0x102030 :: 32 word, w = 0 :: real\<rparr>
       \<noteq> \<lparr>x = 0, y = 0, z = 0, rgb = 0x102030, w = 1\<rparr>"
proof -
  have m0: "max_contour_dist_loop flann (map xy_of [ex_A0w]) [ex_C0] max_dist [ex_F] 0 = 0"
    by (rule max_contour_dist_loop_no_neighbors) (use flagged_radius in simp)
  have ml: "merge_loop flann (map xy_of [ex_A0w]) [ex_C0] [ex_F] max_dist 0 [ex_F] (reset_w [ex_A0w])
      = Inr (replicate (length [ex_F]) NoNeighbor, reset_w [ex_A0w] @ map new_point [ex_F])"
    by (rule merge_loop_no_neighbors) (use flagged_radius in simp)
  have "merge_cloud flann [ex_C0] max_dist [ex_F] [ex_A0w]
     = Inr ([NoNeighbor], [ex_A0, \<lparr>x = 1, y = 0, z = 4, rgb = 0x708090, w = 0\<rparr>])"
    unfolding merge_cloud_def Let_def m0 ml
    by (simp add: reset_w_def new_point_def default_w_def)
  then show ?thesis
    using radius_sound_flann max_dist_nonneg flagged_distance by simp
qed

subsection \<open>C8: a cloud without any overlap\<close>

text \<open>
  C8. If the radius search finds no neighbour for any point of the cloud, the maximum
  contour distance stays 0 and the merge of the cloud returns a result: the accumulator,
  with its flags reset, followed by the points of the cloud. Any blend with a maximum contour
  distance of 0 is a failure of the model, so none was evaluated; the colours are those
  of the accumulator followed by those of the cloud.
\<close>

theorem disjoint_cloud_defined:
  assumes "\<forall>cp\<in>set cloud. \<forall>K. radiusSearch kd (map xy_of acc) (xy_of cp) (fmul 2 md) K = []"
  shows "max_contour_dist_loop kd (map xy_of acc) contour md cloud 0 = 0
       \<and> merge_loop kd (map xy_of acc) contour cloud md 0 cloud (reset_w acc)
           = Inr (replicate (length cloud) NoNeighbor, reset_w acc @ map new_point cloud)
       \<and> merge_cloud kd contour md cloud acc
           = Inr (replicate (length cloud) NoNeighbor, reset_w acc @ map new_point cloud)
       \<and> map rgb (reset_w acc @ map new_point cloud) = map rgb acc @ map rgb cloud"
proof -
  have m0: "max_contour_dist_loop kd (map xy_of acc) contour md cloud 0 = 0"
    by (rule max_contour_dist_loop_no_neighbors) (use assms in blast)
  have ml: "merge_loop kd (map xy_of acc) contour cloud md 0 cloud (reset_w acc)
      = Inr (replicate (length cloud) NoNeighbor, reset_w acc @ map new_point cloud)"
    by (rule merge_loop_no_neighbors) (use assms in blast)
  show ?thesis
    using m0 ml by (simp add: merge_cloud_def Let_def reset_w_def new_point_def)
qed

text \<open>C8 on the scene with a cloud point far from the accumulator.\<close>

theorem disjoint_cloud_defined_witness:
  "(\<forall>K. radiusSearch flann (map xy_of [ex_A0]) (xy_of ex_F) (fmul 2 max_dist) K = [])
   \<and> max_contour_dist_loop flann (map xy_of [ex_A0]) [ex_C0] max_dist [ex_F] 0 = 0
   \<and> merge_cloud flann [ex_C0] max_dist [ex_F] [ex_A0]
     = Inr ([NoNeighbor], [ex_A0, \<lparr>x = 1, y = 0, z = 4, rgb = 0x708090, w = 0\<rparr>])"
  using disjoint_cloud_defined[of "[ex_F]" flann "[ex_A0]" max_dist "[ex_C0]"] far_radius
  by (simp add: new_point_def default_w_def reset_w_def)

subsection \<open>C9: the bounds of a blended channel\<close>

text \<open>
  C9, as amended. For \<open>alpha\<close> in \<open>[0, 1]\<close> a blended channel is defined, is at most the
  larger of the two channels and is at least the smaller one minus 1: the exact value
  \<open>(1 - alpha) * acc + alpha * cloud\<close> lies between the two, the four roundings of the
  single-precision evaluation move it by less than 1, and the conversion truncates.
\<close>

theorem blend_channel_bounds:
  assumes "0 \<le> alpha" "alpha \<le> 1"
  shows "\<exists>v. blend_channel alpha a c = Inr v \<and> min (unat a) (unat c) \<le> unat v + 1
           \<and> unat v \<le> max (unat a) (unat c)"
proof -
  define A where "A = real (unat a)"
  define C where "C = real (unat c)"
  define r where "r = fadd (fmul (fsub 1 alpha) A) (fmul alpha C)"
  have a255: "unat a \<le> 255" using unsigned_less[of a, where ?'a = nat] by simp
  have c255: "unat c \<le> 255" using unsigned_less[of c, where ?'a = nat] by simp
  have A: "0 \<le> A" "A \<le> 255" using a255 by (simp_all add: A_def del: of_nat_unat)
  have C: "0 \<le> C" "C \<le> 255" using c255 by (simp_all add: C_def del: of_nat_unat)
  note b = blend_value_bounds[OF assms A C, folded r_def]
  have mx: "max A C = real (max (unat a) (unat c))" by (simp add: A_def C_def max_def del: of_nat_unat)
  have mn: "min A C = real (min (unat a) (unat c))" by (simp add: A_def C_def min_def del: of_nat_unat)
  have f0: "0 \<le> \<lfloor>r\<rfloor>" using b(1) by simp
  have "r < real (max (unat a) (unat c) + 1)" using b(3) mx by simp
  then have "\<lfloor>r\<rfloor> < int (max (unat a) (unat c) + 1)" by (simp add: floor_less_iff)
  then have fhi: "\<lfloor>r\<rfloor> \<le> int (max (unat a) (unat c))" by simp
  have "real (min (unat a) (unat c)) < r + 1" using b(2) mn by simp
  then have "real (min (unat a) (unat c)) < of_int (\<lfloor>r\<rfloor> + 1) + 1"
    by (smt (verit) of_int_add of_int_1 real_of_int_floor_add_one_gt)
  then have "real (min (unat a) (unat c)) < real_of_int (\<lfloor>r\<rfloor> + 2)" by simp
  then have flo: "int (min (unat a) (unat c)) \<le> \<lfloor>r\<rfloor> + 1" 
    by (smt (verit) of_int_less_iff of_int_of_nat_eq)
  have "max (unat a) (unat c) \<le> 255" using a255 c255 by simp
  then have f255: "\<lfloor>r\<rfloor> \<le> 255" using fhi by linarith
  have bc: "blend_channel alpha a c = Inr (word_of_int \<lfloor>r\<rfloor>)"
    using b(1) f0 f255 by (simp add: blend_channel_def to_uint8_def r_def A_def C_def Let_def del: of_nat_unat)
  have un: "unat (word_of_int \<lfloor>r\<rfloor> :: 8 word) = nat \<lfloor>r\<rfloor>"
    using f0 f255 by (simp add: unat_eq_nat_uint uint_word_of_int take_bit_int_eq_self)
  show ?thesis
    using bc un f0 fhi flo by (intro exI[of _ "word_of_int \<lfloor>r\<rfloor>"]) auto
qed

text \<open>C9, the amended statement at \<open>alpha = 1/2\<close>: channels 10 and 20 blend to 15.\<close>

theorem blend_channel_bounds_witness:
  "(0 :: real) \<le> 1 / 2 \<and> (1 / 2 :: real) \<le> 1
   \<and> blend_channel (1 / 2) 10 20 = Inr 15
   \<and> min (unat (10 :: 8 word)) (unat (20 :: 8 word)) \<le> unat (15 :: 8 word) + 1
   \<and> unat (15 :: 8 word) \<le> max (unat (10 :: 8 word)) (unat (20 :: 8 word))"
  using blend_channel_bounds[of "1 / 2" 10 20] blend_half by simp

text \<open>
  C9 as stated fails. With \<open>alpha = 137443 / 2^25\<close> and both channels equal to 3, the
  single-precision value of \<open>(1 - alpha) * 3 + alpha * 3\<close> is \<open>12582911 / 2^22\<close>, just
  below 3, and the channel written is 2.
\<close>

theorem blend_undershoot:
  "(0 :: real) \<le> 137443 / 33554432 \<and> (137443 / 33554432 :: real) \<le> 1
   \<and> blend_channel (137443 / 33554432) 3 3 = Inr 2
   \<and> unat (2 :: 8 word) < min (unat (3 :: 8 word)) (unat (3 :: 8 word))"
proof -
  have s: "fsub 1 (137443 / 33554432) = 8354247 / 8388608"
    unfolding fsub_def by (subst fl_eval[where e = "-1"]) (simp_all add: rne_def)
  have t1: "fmul (8354247 / 8388608) 3 = 6265685 / 2097152"
    unfolding fmul_def by (subst fl_eval[where e = 1]) (simp_all add: rne_def)
  have t2: "fmul (137443 / 33554432) 3 = 412329 / 33554432"
    unfolding fmul_def by (subst fl_eval[where e = "-7"]) (simp_all add: rne_def)
  have r: "fadd (6265685 / 2097152) (412329 / 33554432) = 12582911 / 4194304"
    unfolding fadd_def by (subst fl_eval[where e = 1]) (simp_all add: rne_def)
  show ?thesis
    by (simp add: blend_channel_def s t1 t2 r to_uint8_def)
qed

subsection \<open>C10: the fix-up keeps the coordinates\<close>

text \<open>
  C10. The fix-up loop returns an accumulator of the same points with the same \<open>x\<close>,
  \<open>y\<close> and \<open>z\<close>: only colours and flags can differ.
\<close>

theorem fix_up_keeps_coordinates:
  assumes "fix_colors kd contour cloud mcd idxs acc = Inr acc'"
  shows "map x acc' = map x acc \<and> map y acc' = map y acc \<and> map z acc' = map z acc"
  using fix_colors_length[OF assms] fix_colors_xyz[OF assms]
  by (auto simp: list_eq_iff_nth_eq)

text \<open>
  C10 on the fix-up of the scene with a cloud point inside the accumulator: the second
  point changes colour and flag, and the coordinates are those before the fix-up.
\<close>

theorem fix_up_keeps_coordinates_witness:
  "fix_colors flann [ex_C1] [ex_P] (1 / 512) [0, 1]
      [\<lparr>x = 0, y = 0, z = 2, rgb = 0x102030, w = 1\<rparr>, ex_A1]
     = Inr [\<lparr>x = 0, y = 0, z = 2, rgb = 0x102030, w = 1\<rparr>,
            \<lparr>x = 3 / 1024, y = 0, z = 4, rgb = 0x708090, w = 1\<rparr>]
   \<and> map x [\<lparr>x = 0, y = 0, z = 2, rgb = 0x102030 :: 32 word, w = 1 :: real\<rparr>,
            \<lparr>x = 3 / 1024, y = 0, z = 4, rgb = 0x708090, w = 1\<rparr>]
     = map x [\<lparr>x = 0, y = 0, z = 2, rgb = 0x102030 :: 32 word, w = 1 :: real\<rparr>, ex_A1]
   \<and> map y [\<lparr>x = 0, y = 0, z = 2, rgb = 0x102030 :: 32 word, w = 1 :: real\<rparr>,
            \<lparr>x = 3 / 1024, y = 0, z = 4, rgb = 0x708090, w = 1\<rparr>]
     = map y [\<lparr>x = 0, y = 0, z = 2, rgb = 0x102030 :: 32 word, w = 1 :: real\<rparr>, ex_A1]
   \<and> map z [\<lparr>x = 0, y = 0, z = 2, rgb = 0x102030 :: 32 word, w = 1 :: real\<rparr>,
            \<lparr>x = 3 / 1024, y = 0, z = 4, rgb = 0x708090, w = 1\<rparr>]
     = map z [\<lparr>x = 0, y = 0, z = 2, rgb = 0x102030 :: 32 word, w = 1 :: real\<rparr>, ex_A1]"
  using fix_up_keeps_coordinates[OF inside_fix_colors] inside_fix_colors
  by simp

end
